theory Spec2Isabelle
  imports
    Main
    "HOL-Library.Finite_Map"
    "HOL-Library.Word"
    "HOL-Library.Char_ord"
    "HOL-Library.List_Lexorder"
begin

section \<open>The impersonation proxy controller: data model\<close>

text \<open>
  The embedding follows \<^verbatim>\<open>internal/controller/impersonatorconfig/impersonator_config.go\<close>.
  Go maps are finite maps (a nil map and an empty map are the same value here, as they are for
  the semantic equality the controller compares objects with), byte slices are strings,
  a \<^verbatim>\<open>net.IP\<close> is a list of bytes (the nil IP is the empty list).
\<close>

type_synonym bytes = string
type_synonym IP = "8 word list"

subsection \<open>Errors\<close>

datatype StatusReason =
    StatusReasonNotFound
  | StatusReasonAlreadyExists
  | StatusReasonConflict
  | StatusReasonForbidden
  | StatusReasonInternalError

text \<open>
  Go error values: an API status error, a plain message (\<^verbatim>\<open>fmt.Errorf\<close> without
  \<^verbatim>\<open>%w\<close>, \<^verbatim>\<open>constable.Error\<close>), a message wrapping another error
  (\<^verbatim>\<open>%w\<close>), and an aggregate. The nil error is \<open>None\<close> of \<open>error option\<close>.
\<close>

datatype error =
    StatusError StatusReason
  | ErrorString string
  | Wrapped string error
  | Aggregate "error list"

text \<open>What is not an error value: a runtime panic, or a goroutine that blocks forever.\<close>

datatype fault = NilPointerDereference | CloseOfClosedChannel | BlocksForever

fun IsNotFoundErr :: "error \<Rightarrow> bool" where
  "IsNotFoundErr (StatusError r) = (r = StatusReasonNotFound)"
| "IsNotFoundErr (Wrapped m e) = IsNotFoundErr e"
| "IsNotFoundErr (ErrorString m) = False"
| "IsNotFoundErr (Aggregate es) = False"

definition IsNotFound :: "error option \<Rightarrow> bool" where
  "IsNotFound err = (case err of None \<Rightarrow> False | Some e \<Rightarrow> IsNotFoundErr e)"

definition NewAggregate :: "error option list \<Rightarrow> error option" where
  "NewAggregate errlist =
     (case List.map_filter id errlist of
        [] \<Rightarrow> None
      | errs \<Rightarrow> Some (Aggregate errs))"

subsection \<open>Kubernetes objects\<close>

record ObjectMeta =
  Name :: string
  Namespace :: string
  Labels :: "(string, string) fmap"
  Annotations :: "(string, string) fmap"

record ServicePort =
  TargetPort :: int
  Port :: int
  Protocol :: string

record LoadBalancerIngress =
  IP :: string
  Hostname :: string

text \<open>
  \<^verbatim>\<open>v1.Service\<close>: the embedded object metadata, then the fields of \<^verbatim>\<open>Spec\<close> and of
  \<^verbatim>\<open>Status.LoadBalancer\<close> under their Go path.
\<close>

record Service = ObjectMeta +
  Spec_Type :: string
  Spec_Ports :: "ServicePort list"
  Spec_LoadBalancerIP :: string
  Spec_Selector :: "(string, string) fmap"
  Spec_ClusterIP :: string
  Spec_ClusterIPs :: "string list"
  Status_LoadBalancer_Ingress :: "LoadBalancerIngress list"

record Secret = ObjectMeta +
  Data :: "(string, bytes) fmap"
  Secret_Type :: string

definition ServiceTypeLoadBalancer :: string where
  "ServiceTypeLoadBalancer = ''LoadBalancer''"

definition ServiceTypeClusterIP :: string where
  "ServiceTypeClusterIP = ''ClusterIP''"

subsection \<open>The CredentialIssuer API types used by the controller\<close>

text \<open>
  The constants of the generated package \<^verbatim>\<open>v1alpha1\<close>. The mode and the service type are
  strings in Go, so that an unknown value is representable; their values are the ones that
  \<^verbatim>\<open>validateCredentialIssuerSpec\<close> prints in its messages.
\<close>

definition ImpersonationProxyModeDisabled :: string where
  "ImpersonationProxyModeDisabled = ''disabled''"

definition ImpersonationProxyModeEnabled :: string where
  "ImpersonationProxyModeEnabled = ''enabled''"

definition ImpersonationProxyModeAuto :: string where
  "ImpersonationProxyModeAuto = ''auto''"

definition ImpersonationProxyServiceTypeLoadBalancer :: string where
  "ImpersonationProxyServiceTypeLoadBalancer = ''LoadBalancer''"

definition ImpersonationProxyServiceTypeClusterIP :: string where
  "ImpersonationProxyServiceTypeClusterIP = ''ClusterIP''"

definition ImpersonationProxyServiceTypeNone :: string where
  "ImpersonationProxyServiceTypeNone = ''None''"

record ImpersonationProxySpec =
  Mode :: string
  Service_Type :: string
  Service_LoadBalancerIP :: string
  Service_Annotations :: "(string, string) fmap"
  ExternalEndpoint :: string

datatype StrategyType = ImpersonationProxyStrategyType

datatype StrategyStatus = SuccessStrategyStatus | ErrorStrategyStatus

datatype StrategyReason =
    ListeningStrategyReason
  | PendingStrategyReason
  | DisabledStrategyReason
  | ErrorDuringSetupStrategyReason

datatype FrontendType = ImpersonationProxyFrontendType

record ImpersonationProxyInfo =
  Endpoint :: string
  CertificateAuthorityData :: string

record CredentialIssuerFrontend =
  Frontend_Type :: FrontendType
  Frontend_ImpersonationProxyInfo :: "ImpersonationProxyInfo option"

record CredentialIssuerStrategy =
  Type :: StrategyType
  Status :: StrategyStatus
  Reason :: StrategyReason
  Message :: string
  LastUpdateTime :: nat
  Frontend :: "CredentialIssuerFrontend option"

subsection \<open>Certificates\<close>

text \<open>
  Modelled from the spec: the package \<^verbatim>\<open>internal/certauthority\<close> is not part of the
  sources at hand. The spec describes a certificate authority as a self-signed key pair
  persisted as two PEM blobs; \<open>Bundle\<close> is the certificate blob.
\<close>

record CA =
  Bundle :: bytes
  PrivateKeyPEM :: bytes

text \<open>The fields of \<^verbatim>\<open>x509.Certificate\<close> that the controller reads.\<close>

record Certificate =
  Raw :: bytes
  IPAddresses :: "IP list"
  DNSNames :: "string list"

record certNameInfo =
  ready :: bool
  selectedIPs :: "IP list"
  selectedHostname :: string
  clientEndpoint :: string

subsection \<open>Library functions taken as parameters\<close>

text \<open>
  Functions of the Go standard library that the controller calls and whose implementation is
  outside the repository. \<open>net_ParseIP\<close> returns the nil IP (the empty list) for a string
  that does not parse. \<open>json_Unmarshal\<close> gives what decoding into an empty string slice leaves
  in the slice, and the error. \<open>pem_Decode\<close> gives the bytes of the first PEM block.
  \<open>x509_Verify\<close> verifies a certificate against the pool made of a CA bundle.
  The two functions of \<^verbatim>\<open>internal/certauthority\<close>, a package that is not part of the
  sources at hand, are parameters as well: issuing a serving certificate for DNS names and
  IP addresses, and encoding it with its key as PEM.
\<close>

type_synonym tls_Certificate = "bytes \<times> bytes"

record lib =
  net_ParseIP :: "string \<Rightarrow> IP"
  base64_EncodeToString :: "bytes \<Rightarrow> string"
  json_Marshal :: "string list \<Rightarrow> error + string"
  json_Unmarshal :: "string \<Rightarrow> string list \<times> error option"
  pem_Decode :: "bytes \<Rightarrow> bytes option"
  x509_ParseCertificate :: "bytes \<Rightarrow> error + Certificate"
  tls_X509KeyPair :: "bytes \<Rightarrow> bytes \<Rightarrow> error option"
  x509_Verify :: "Certificate \<Rightarrow> bytes \<Rightarrow> error option"
  certauthority_IssueServerCert :: "CA \<Rightarrow> string list \<Rightarrow> IP list \<Rightarrow> error + tls_Certificate"
  certauthority_ToPEM :: "tls_Certificate \<Rightarrow> error + bytes \<times> bytes"

subsection \<open>The controller\<close>

datatype chan_state = Open | Closed

text \<open>
  The error channel is made with capacity one: a slot that is empty or holds one error
  value (which may be the nil error), and the flag set by \<^verbatim>\<open>close\<close>. The goroutine
  started with the channel sends on it once: \<open>pending\<close> is the value that the server returns
  when its stop channel is closed, until the goroutine has sent.
\<close>

record errorChan =
  slot :: "error option option"
  closed :: bool
  pending :: "error option option"

text \<open>
  What the mutating calls of the Kubernetes client do is kept as the state of the API server
  (\<open>apiServices\<close>, \<open>apiSecrets\<close>), the error with which the server rejects a call
  (\<open>apiReject\<close>), and the log of the mutating calls made.
\<close>

datatype call =
    CreateService Service
  | UpdateService Service
  | DeleteService string
  | CreateSecret Secret
  | DeleteSecret string

record k8s =
  apiServices :: "string \<rightharpoonup> Service"
  apiSecrets :: "string \<rightharpoonup> Secret"
  apiReject :: "call \<Rightarrow> error option"
  calls :: "call list"

text \<open>
  The fields of \<^verbatim>\<open>impersonatorConfigController\<close>. An informer's lister, read by name in the
  controller's namespace, answers with the cached object or with an error; a dynamic
  certificate provider holds a certificate and key or nothing; \<open>impersonatorFunc\<close> is the
  error of the server factory, or the value that the server it starts returns once its stop
  channel is closed.
\<close>

record impersonatorConfigController =
  namespace :: string
  credentialIssuerResourceName :: string
  generatedLoadBalancerServiceName :: string
  generatedClusterIPServiceName :: string
  tlsSecretName :: string
  caSecretName :: string
  impersonationSignerSecretName :: string
  k8sClient :: k8s
  servicesInformer :: "string \<Rightarrow> error + Service"
  secretsInformer :: "string \<Rightarrow> error + Secret"
  labels :: "(string, string) fmap"
  clock :: nat
  impersonationSigningCertProvider :: "(bytes \<times> bytes) option"
  impersonatorFunc :: "error + error option"
  hasControlPlaneNodes :: "bool option"
  serverStopCh :: "chan_state option"
  errorCh :: "errorChan option"
  tlsServingCertDynamicCertProvider :: "(bytes \<times> bytes) option"

section \<open>The controller's functions\<close>

subsection \<open>Desired state\<close>

definition enabledByAutoMode ::
  "impersonatorConfigController \<Rightarrow> ImpersonationProxySpec \<Rightarrow> fault + bool" where
  "enabledByAutoMode c config =
     (if Mode config = ImpersonationProxyModeAuto
      then (case hasControlPlaneNodes c of
              None \<Rightarrow> Inl NilPointerDereference
            | Some b \<Rightarrow> Inr (\<not> b))
      else Inr False)"

definition disabledByAutoMode ::
  "impersonatorConfigController \<Rightarrow> ImpersonationProxySpec \<Rightarrow> fault + bool" where
  "disabledByAutoMode c config =
     (if Mode config = ImpersonationProxyModeAuto
      then (case hasControlPlaneNodes c of
              None \<Rightarrow> Inl NilPointerDereference
            | Some b \<Rightarrow> Inr b)
      else Inr False)"

definition disabledExplicitly ::
  "impersonatorConfigController \<Rightarrow> ImpersonationProxySpec \<Rightarrow> bool" where
  "disabledExplicitly c config = (Mode config = ImpersonationProxyModeDisabled)"

definition shouldHaveImpersonator ::
  "impersonatorConfigController \<Rightarrow> ImpersonationProxySpec \<Rightarrow> fault + bool" where
  "shouldHaveImpersonator c config =
     (case enabledByAutoMode c config of
        Inl f \<Rightarrow> Inl f
      | Inr b \<Rightarrow> Inr (b \<or> Mode config = ImpersonationProxyModeEnabled))"

definition shouldHaveLoadBalancer ::
  "impersonatorConfigController \<Rightarrow> ImpersonationProxySpec \<Rightarrow> fault + bool" where
  "shouldHaveLoadBalancer c config =
     (case shouldHaveImpersonator c config of
        Inl f \<Rightarrow> Inl f
      | Inr b \<Rightarrow> Inr (b \<and> Service_Type config = ImpersonationProxyServiceTypeLoadBalancer))"

definition shouldHaveClusterIPService ::
  "impersonatorConfigController \<Rightarrow> ImpersonationProxySpec \<Rightarrow> fault + bool" where
  "shouldHaveClusterIPService c config =
     (case shouldHaveImpersonator c config of
        Inl f \<Rightarrow> Inl f
      | Inr b \<Rightarrow> Inr (b \<and> Service_Type config = ImpersonationProxyServiceTypeClusterIP))"

definition shouldHaveTLSSecret ::
  "impersonatorConfigController \<Rightarrow> ImpersonationProxySpec \<Rightarrow> fault + bool" where
  "shouldHaveTLSSecret c config = shouldHaveImpersonator c config"

subsection \<open>The name of the TLS certificate, from the load balancer\<close>

text \<open>The two loops over the ingress entries; each returns at the first entry it can use.\<close>

fun firstIngressHostname :: "LoadBalancerIngress list \<Rightarrow> certNameInfo option" where
  "firstIngressHostname [] = None"
| "firstIngressHostname (ingress # rest) =
     (let hostname = Hostname ingress in
      if hostname \<noteq> ''''
      then Some \<lparr>ready = True, selectedIPs = [], selectedHostname = hostname,
                 clientEndpoint = hostname\<rparr>
      else firstIngressHostname rest)"

fun firstIngressIP :: "lib \<Rightarrow> LoadBalancerIngress list \<Rightarrow> certNameInfo option" where
  "firstIngressIP L [] = None"
| "firstIngressIP L (ingress # rest) =
     (let ip = IP ingress; parsedIP = net_ParseIP L ip in
      if parsedIP \<noteq> []
      then Some \<lparr>ready = True, selectedIPs = [parsedIP], selectedHostname = '''',
                 clientEndpoint = ip\<rparr>
      else firstIngressIP L rest)"

definition notReady :: certNameInfo where
  "notReady = \<lparr>ready = False, selectedIPs = [], selectedHostname = '''', clientEndpoint = ''''\<rparr>"

definition findTLSCertificateNameFromLoadBalancer ::
  "lib \<Rightarrow> impersonatorConfigController \<Rightarrow> error + certNameInfo" where
  "findTLSCertificateNameFromLoadBalancer L c =
     (case servicesInformer c (generatedLoadBalancerServiceName c) of
        Inl err \<Rightarrow> if IsNotFoundErr err then Inr notReady else Inl err
      | Inr lb \<Rightarrow>
          (let ingresses = Status_LoadBalancer_Ingress lb in
           if length ingresses = 0
              \<or> (Hostname (hd ingresses) = '''' \<and> IP (hd ingresses) = '''')
           then Inr notReady
           else (case firstIngressHostname ingresses of
                   Some info \<Rightarrow> Inr info
                 | None \<Rightarrow>
                     (case firstIngressIP L ingresses of
                        Some info \<Rightarrow> Inr info
                      | None \<Rightarrow>
                          Inl (ErrorString
                                 (''could not find valid IP addresses or hostnames from load balancer ''
                                  @ namespace c @ ''/'' @ Name lb))))))"

subsection \<open>The status of a sync pass\<close>

definition doSyncResult ::
  "lib \<Rightarrow> impersonatorConfigController \<Rightarrow> certNameInfo \<Rightarrow> ImpersonationProxySpec \<Rightarrow> CA option
   \<Rightarrow> fault + CredentialIssuerStrategy" where
  "doSyncResult L c nameInfo config ca =
     (if disabledExplicitly c config
      then Inr \<lparr>Type = ImpersonationProxyStrategyType,
                Status = ErrorStrategyStatus,
                Reason = DisabledStrategyReason,
                Message = ''impersonation proxy was explicitly disabled by configuration'',
                LastUpdateTime = clock c,
                Frontend = None\<rparr>
      else (case disabledByAutoMode c config of
              Inl f \<Rightarrow> Inl f
            | Inr True \<Rightarrow>
                Inr \<lparr>Type = ImpersonationProxyStrategyType,
                     Status = ErrorStrategyStatus,
                     Reason = DisabledStrategyReason,
                     Message = ''automatically determined that impersonation proxy should be disabled'',
                     LastUpdateTime = clock c,
                     Frontend = None\<rparr>
            | Inr False \<Rightarrow>
                if \<not> ready nameInfo
                then Inr \<lparr>Type = ImpersonationProxyStrategyType,
                          Status = ErrorStrategyStatus,
                          Reason = PendingStrategyReason,
                          Message = ''waiting for load balancer Service to be assigned IP or hostname'',
                          LastUpdateTime = clock c,
                          Frontend = None\<rparr>
                else (case ca of
                        None \<Rightarrow> Inl NilPointerDereference
                      | Some ca' \<Rightarrow>
                          Inr \<lparr>Type = ImpersonationProxyStrategyType,
                               Status = SuccessStrategyStatus,
                               Reason = ListeningStrategyReason,
                               Message = ''impersonation proxy is ready to accept client connections'',
                               LastUpdateTime = clock c,
                               Frontend = Some
                                 \<lparr>Frontend_Type = ImpersonationProxyFrontendType,
                                  Frontend_ImpersonationProxyInfo = Some
                                    \<lparr>Endpoint = ''https://'' @ clientEndpoint nameInfo,
                                     CertificateAuthorityData =
                                       base64_EncodeToString L (Bundle ca')\<rparr>\<rparr>\<rparr>)))"

subsection \<open>The Kubernetes client\<close>

text \<open>
  A mutating call is logged, then rejected with the server's error for it if there is one;
  otherwise a create fails when the name is taken, an update or a delete fails when the name
  is not there, and the call takes effect on the server's objects. The informers are not
  changed by a call: a lister answers from the cache the pass started with.
\<close>

definition apiDo :: "call \<Rightarrow> k8s \<Rightarrow> error option \<times> k8s" where
  "apiDo cl k =
     (let k' = k\<lparr>calls := calls k @ [cl]\<rparr> in
      case apiReject k cl of
        Some e \<Rightarrow> (Some e, k')
      | None \<Rightarrow>
         (case cl of
            CreateService s \<Rightarrow>
              if apiServices k (Name s) \<noteq> None
              then (Some (StatusError StatusReasonAlreadyExists), k')
              else (None, k'\<lparr>apiServices := (apiServices k)(Name s \<mapsto> s)\<rparr>)
          | UpdateService s \<Rightarrow>
              if apiServices k (Name s) = None
              then (Some (StatusError StatusReasonNotFound), k')
              else (None, k'\<lparr>apiServices := (apiServices k)(Name s \<mapsto> s)\<rparr>)
          | DeleteService n \<Rightarrow>
              if apiServices k n = None
              then (Some (StatusError StatusReasonNotFound), k')
              else (None, k'\<lparr>apiServices := (apiServices k)(n := None)\<rparr>)
          | CreateSecret s \<Rightarrow>
              if apiSecrets k (Name s) \<noteq> None
              then (Some (StatusError StatusReasonAlreadyExists), k')
              else (None, k'\<lparr>apiSecrets := (apiSecrets k)(Name s \<mapsto> s)\<rparr>)
          | DeleteSecret n \<Rightarrow>
              if apiSecrets k n = None
              then (Some (StatusError StatusReasonNotFound), k')
              else (None, k'\<lparr>apiSecrets := (apiSecrets k)(n := None)\<rparr>)))"

definition clientDo ::
  "call \<Rightarrow> impersonatorConfigController \<Rightarrow> error option \<times> impersonatorConfigController" where
  "clientDo cl c = (case apiDo cl (k8sClient c) of (err, k') \<Rightarrow> (err, c\<lparr>k8sClient := k'\<rparr>))"

subsection \<open>Constants\<close>

definition impersonationProxyPort :: int where
  "impersonationProxyPort = 8444"

definition defaultHTTPSPort :: int where
  "defaultHTTPSPort = 443"

definition appLabelKey :: string where
  "appLabelKey = ''app''"

definition annotationKeysKey :: string where
  "annotationKeysKey = ''credentialissuer.pinniped.dev/annotation-keys''"

definition TLSCertKey :: string where
  "TLSCertKey = ''tls.crt''"

definition TLSPrivateKeyKey :: string where
  "TLSPrivateKeyKey = ''tls.key''"

definition SecretTypeTLS :: string where
  "SecretTypeTLS = ''kubernetes.io/tls''"

definition ProtocolTCP :: string where
  "ProtocolTCP = ''TCP''"

text \<open>Reading a Go map of strings or byte slices: a missing key reads as the empty value.\<close>

definition at :: "(string, string) fmap \<Rightarrow> string \<Rightarrow> string" where
  "at m k = (case fmlookup m k of None \<Rightarrow> '''' | Some v \<Rightarrow> v)"

subsection \<open>The process of the proxy server\<close>

definition ensureImpersonatorIsStopped ::
  "bool \<Rightarrow> impersonatorConfigController
   \<Rightarrow> fault + (error option \<times> impersonatorConfigController)" where
  "ensureImpersonatorIsStopped shouldCloseErrChan c =
     (case serverStopCh c of
        None \<Rightarrow> Inr (None, c)
      | Some Closed \<Rightarrow> Inl CloseOfClosedChannel
      | Some Open \<Rightarrow>
         (case errorCh c of
            None \<Rightarrow> Inl BlocksForever
          | Some ch \<Rightarrow>
             (case (case slot ch of
                      Some v \<Rightarrow> Some (v, ch\<lparr>slot := None\<rparr>)
                    | None \<Rightarrow>
                        if closed ch then Some (None, ch)
                        else (case pending ch of
                                Some r \<Rightarrow> Some (r, ch\<lparr>pending := None\<rparr>)
                              | None \<Rightarrow> None)) of
                None \<Rightarrow> Inl BlocksForever
              | Some (stopErr, ch') \<Rightarrow>
                  if shouldCloseErrChan \<and> closed ch' then Inl CloseOfClosedChannel
                  else Inr (stopErr, c\<lparr>serverStopCh := None, errorCh := None\<rparr>))))"

definition ensureImpersonatorIsStarted ::
  "impersonatorConfigController \<Rightarrow> fault + (error option \<times> impersonatorConfigController)" where
  "ensureImpersonatorIsStarted c =
     (if serverStopCh c \<noteq> None
      then (case (case errorCh c of
                    None \<Rightarrow> None
                  | Some ch \<Rightarrow>
                     (case slot ch of
                        Some v \<Rightarrow> Some (v, ch\<lparr>slot := None\<rparr>)
                      | None \<Rightarrow> if closed ch then Some (None, ch) else None)) of
              None \<Rightarrow> Inr (None, c)
            | Some (received, ch') \<Rightarrow>
               (let runningErr =
                      (if received = None
                       then Some (ErrorString ''unexpected shutdown of proxy server'')
                       else received) in
                if closed ch' then Inl CloseOfClosedChannel
                else (case ensureImpersonatorIsStopped False
                             (c\<lparr>errorCh := Some (ch'\<lparr>closed := True\<rparr>)\<rparr>) of
                        Inl f \<Rightarrow> Inl f
                      | Inr (stoppingErr, c') \<Rightarrow>
                          Inr (NewAggregate [runningErr, stoppingErr], c'))))
      else (case impersonatorFunc c of
              Inl err \<Rightarrow> Inr (Some err, c)
            | Inr r \<Rightarrow>
                Inr (None, c\<lparr>serverStopCh := Some Open,
                              errorCh := Some \<lparr>slot = None, closed = False, pending = Some r\<rparr>\<rparr>)))"

subsection \<open>The exposure services\<close>

text \<open>
  The part of \<^verbatim>\<open>createOrUpdateService\<close> that builds the updated copy of the stored
  service: \<open>desiredService\<close> already carries the bookkeeping annotation when annotations
  were requested, and \<open>desiredAnnotationKeys\<close> are the requested keys.
\<close>

definition oldDesiredAnnotationKeys :: "lib \<Rightarrow> Service \<Rightarrow> string list" where
  "oldDesiredAnnotationKeys L existingService =
     (case fmlookup (Annotations existingService) annotationKeysKey of
        None \<Rightarrow> []
      | Some oldDesiredAnnotationKeysJSON \<Rightarrow> fst (json_Unmarshal L oldDesiredAnnotationKeysJSON))"

definition updatedService :: "lib \<Rightarrow> Service \<Rightarrow> Service \<Rightarrow> string list \<Rightarrow> Service" where
  "updatedService L existingService desiredService desiredAnnotationKeys =
     (let overlaid = Annotations existingService ++\<^sub>f Annotations desiredService;
          pruned = fold (\<lambda>oldKey annotations.
                           if oldKey |\<notin>| fmdom (Annotations desiredService)
                           then fmdrop oldKey annotations else annotations)
                     (oldDesiredAnnotationKeys L existingService) overlaid;
          merged = (if length desiredAnnotationKeys = 0
                    then fmdrop annotationKeysKey pruned else pruned)
      in existingService
           \<lparr>Labels := Labels desiredService,
            Annotations := merged,
            Spec_Type := Spec_Type desiredService,
            Spec_LoadBalancerIP := Spec_LoadBalancerIP desiredService,
            Spec_Selector := Spec_Selector desiredService\<rparr>)"

definition createOrUpdateService ::
  "lib \<Rightarrow> impersonatorConfigController \<Rightarrow> Service
   \<Rightarrow> error option \<times> impersonatorConfigController" where
  "createOrUpdateService L c desiredService0 =
     (let desiredAnnotationKeys = sorted_list_of_fset (fmdom (Annotations desiredService0)) in
      case (if length desiredAnnotationKeys > 0
            then (case json_Marshal L desiredAnnotationKeys of
                    Inl err \<Rightarrow> Inl err
                  | Inr keysJSONArray \<Rightarrow>
                      Inr (desiredService0
                             \<lparr>Annotations :=
                                fmupd annotationKeysKey keysJSONArray
                                  (Annotations desiredService0)\<rparr>))
            else Inr desiredService0) of
        Inl err \<Rightarrow> (Some err, c)
      | Inr desiredService \<Rightarrow>
         (case servicesInformer c (Name desiredService) of
            Inl err \<Rightarrow>
              if IsNotFoundErr err then clientDo (CreateService desiredService) c
              else (Some err, c)
          | Inr existingService \<Rightarrow>
              (let updated = updatedService L existingService desiredService desiredAnnotationKeys in
               if existingService = updated then (None, c)
               else clientDo (UpdateService updated) c)))"

definition ensureLoadBalancerIsStarted ::
  "lib \<Rightarrow> impersonatorConfigController \<Rightarrow> ImpersonationProxySpec
   \<Rightarrow> error option \<times> impersonatorConfigController" where
  "ensureLoadBalancerIsStarted L c config =
     (let appNameLabel = at (labels c) appLabelKey;
          loadBalancer =
            \<lparr>Name = generatedLoadBalancerServiceName c,
             Namespace = namespace c,
             Labels = labels c,
             Annotations = Service_Annotations config,
             Spec_Type = ServiceTypeLoadBalancer,
             Spec_Ports = [\<lparr>TargetPort = impersonationProxyPort, Port = defaultHTTPSPort,
                            Protocol = ProtocolTCP\<rparr>],
             Spec_LoadBalancerIP = Service_LoadBalancerIP config,
             Spec_Selector = fmupd appLabelKey appNameLabel fmempty,
             Spec_ClusterIP = '''',
             Spec_ClusterIPs = [],
             Status_LoadBalancer_Ingress = []\<rparr>
      in createOrUpdateService L c loadBalancer)"

definition ensureClusterIPServiceIsStarted ::
  "lib \<Rightarrow> impersonatorConfigController \<Rightarrow> ImpersonationProxySpec
   \<Rightarrow> error option \<times> impersonatorConfigController" where
  "ensureClusterIPServiceIsStarted L c config =
     (let appNameLabel = at (labels c) appLabelKey;
          clusterIP =
            \<lparr>Name = generatedClusterIPServiceName c,
             Namespace = namespace c,
             Labels = labels c,
             Annotations = Service_Annotations config,
             Spec_Type = ServiceTypeClusterIP,
             Spec_Ports = [\<lparr>TargetPort = impersonationProxyPort, Port = defaultHTTPSPort,
                            Protocol = ProtocolTCP\<rparr>],
             Spec_LoadBalancerIP = '''',
             Spec_Selector = fmupd appLabelKey appNameLabel fmempty,
             Spec_ClusterIP = '''',
             Spec_ClusterIPs = [],
             Status_LoadBalancer_Ingress = []\<rparr>
      in createOrUpdateService L c clusterIP)"

subsection \<open>The TLS secret\<close>

definition tlsSecretExists ::
  "impersonatorConfigController \<Rightarrow> bool \<times> Secret option \<times> error option" where
  "tlsSecretExists c =
     (case secretsInformer c (tlsSecretName c) of
        Inl err \<Rightarrow> if IsNotFoundErr err then (False, None, None) else (False, None, Some err)
      | Inr secret \<Rightarrow> (True, Some secret, None))"

definition ensureTLSSecretIsRemoved ::
  "impersonatorConfigController \<Rightarrow> error option \<times> impersonatorConfigController" where
  "ensureTLSSecretIsRemoved c =
     (case tlsSecretExists c of
        (secretExists, _, Some err) \<Rightarrow> (Some err, c)
      | (secretExists, _, None) \<Rightarrow>
          if \<not> secretExists then (None, c)
          else (case clientDo (DeleteSecret (tlsSecretName c)) c of
                  (err, c') \<Rightarrow>
                    if IsNotFound err then (None, c')
                    else if err \<noteq> None then (err, c')
                    else (None, c'\<lparr>tlsServingCertDynamicCertProvider := None\<rparr>)))"

text \<open>
  \<^verbatim>\<open>net.IP.Equal\<close> of the Go standard library: equal byte slices, or an IPv4 address in
  four bytes and the same address in sixteen.
\<close>

definition v4InV6Prefix :: IP where
  "v4InV6Prefix = [0, 0, 0, 0, 0, 0, 0, 0, 0, 0, 0xff, 0xff]"

definition IP_Equal :: "IP \<Rightarrow> IP \<Rightarrow> bool" where
  "IP_Equal ip x =
     (if length ip = length x then ip = x
      else if length ip = 4 \<and> length x = 16
      then take 12 x = v4InV6Prefix \<and> ip = drop 12 x
      else if length ip = 16 \<and> length x = 4
      then take 12 ip = v4InV6Prefix \<and> drop 12 ip = x
      else False)"

text \<open>The loop of \<^verbatim>\<open>certHostnameAndIPMatchDesiredState\<close>, over slices of one length.\<close>

fun actualIPsEqualDesired :: "IP list \<Rightarrow> IP list \<Rightarrow> bool" where
  "actualIPsEqualDesired (actual # actualIPs) (desired # desiredIPs) =
     (if \<not> IP_Equal actual desired then False
      else actualIPsEqualDesired actualIPs desiredIPs)"
| "actualIPsEqualDesired actualIPs desiredIPs = True"

definition certHostnameAndIPMatchDesiredState ::
  "IP list \<Rightarrow> IP list \<Rightarrow> string \<Rightarrow> string list \<Rightarrow> bool" where
  "certHostnameAndIPMatchDesiredState desiredIPs actualIPs desiredHostname actualHostnames =
     (if length desiredIPs > 0 \<and> length actualIPs > 0
         \<and> length actualIPs = length desiredIPs \<and> length actualHostnames = 0
      then actualIPsEqualDesired actualIPs desiredIPs
      else if desiredHostname \<noteq> '''' \<and> length actualHostnames = 1
              \<and> desiredHostname = hd actualHostnames \<and> length actualIPs = 0
      then True
      else False)"

text \<open>
  Modelled from the spec: \<^verbatim>\<open>CA.Pool\<close> of \<^verbatim>\<open>internal/certauthority\<close> is not part of the
  sources at hand; the trust pool of a CA is made of its certificate bundle.
\<close>

definition Pool :: "CA \<Rightarrow> bytes" where
  "Pool ca = Bundle ca"

definition deleteTLSSecretWhenCertificateDoesNotMatchDesiredState ::
  "lib \<Rightarrow> impersonatorConfigController \<Rightarrow> certNameInfo \<Rightarrow> CA \<Rightarrow> Secret
   \<Rightarrow> (bool \<times> error option) \<times> impersonatorConfigController" where
  "deleteTLSSecretWhenCertificateDoesNotMatchDesiredState L c nameInfo ca secret =
     (let certPEM = at (Data secret) TLSCertKey in
      case pem_Decode L certPEM of
        None \<Rightarrow>
          (case ensureTLSSecretIsRemoved c of
             (Some deleteErr, c') \<Rightarrow>
               ((False, Some (Wrapped
                  ''found missing or not PEM-encoded data in TLS Secret, but got error while deleting it''
                  deleteErr)), c')
           | (None, c') \<Rightarrow> ((True, None), c'))
      | Some blockBytes \<Rightarrow>
         (case x509_ParseCertificate L blockBytes of
            Inl parseErr \<Rightarrow>
              (case ensureTLSSecretIsRemoved c of
                 (Some err, c') \<Rightarrow>
                   ((False, Some (Wrapped
                      ''PEM data represented an invalid cert, but got error while deleting it''
                      err)), c')
               | (None, c') \<Rightarrow> ((True, None), c'))
          | Inr actualCertFromSecret \<Rightarrow>
             (let keyPEM = at (Data secret) TLSPrivateKeyKey in
              case tls_X509KeyPair L certPEM keyPEM of
                Some pairErr \<Rightarrow>
                  (case ensureTLSSecretIsRemoved c of
                     (Some err, c') \<Rightarrow>
                       ((False, Some (Wrapped
                          ''cert had an invalid private key, but got error while deleting it''
                          err)), c')
                   | (None, c') \<Rightarrow> ((True, None), c'))
              | None \<Rightarrow>
                 (case x509_Verify L actualCertFromSecret (Pool ca) of
                    Some verifyErr \<Rightarrow>
                      (case ensureTLSSecretIsRemoved c of
                         (Some err, c') \<Rightarrow> ((False, Some err), c')
                       | (None, c') \<Rightarrow> ((True, None), c'))
                  | None \<Rightarrow>
                      if \<not> ready nameInfo
                      then (case ensureTLSSecretIsRemoved c of
                              (Some err, c') \<Rightarrow> ((False, Some err), c')
                            | (None, c') \<Rightarrow> ((True, None), c'))
                      else (let actualIPs = IPAddresses actualCertFromSecret;
                                actualHostnames = DNSNames actualCertFromSecret in
                            if certHostnameAndIPMatchDesiredState (selectedIPs nameInfo) actualIPs
                                 (selectedHostname nameInfo) actualHostnames
                            then ((False, None), c)
                            else (case ensureTLSSecretIsRemoved c of
                                    (Some err, c') \<Rightarrow> ((False, Some err), c')
                                  | (None, c') \<Rightarrow> ((True, None), c')))))))"

text \<open>
  Modelled from the spec: the package \<^verbatim>\<open>internal/dynamiccert\<close> is not part of the sources
  at hand. The spec gives a provider two operations, \<^verbatim>\<open>SetCertKeyContent(certPEM, keyPEM)\<close>
  which answers with an error or stores the pair, and \<^verbatim>\<open>UnsetCertKeyContent()\<close>; the pair
  is refused when it is not a key pair.
\<close>

definition SetCertKeyContent ::
  "lib \<Rightarrow> bytes \<Rightarrow> bytes \<Rightarrow> (bytes \<times> bytes) option \<Rightarrow> error option \<times> (bytes \<times> bytes) option" where
  "SetCertKeyContent L certPEM keyPEM provider =
     (case tls_X509KeyPair L certPEM keyPEM of
        Some err \<Rightarrow> (Some err, provider)
      | None \<Rightarrow> (None, Some (certPEM, keyPEM)))"

definition UnsetCertKeyContent :: "(bytes \<times> bytes) option \<Rightarrow> (bytes \<times> bytes) option" where
  "UnsetCertKeyContent provider = None"

definition loadTLSCertFromSecret ::
  "lib \<Rightarrow> impersonatorConfigController \<Rightarrow> Secret
   \<Rightarrow> error option \<times> impersonatorConfigController" where
  "loadTLSCertFromSecret L c tlsSecret =
     (let certPEM = at (Data tlsSecret) TLSCertKey;
          keyPEM = at (Data tlsSecret) TLSPrivateKeyKey in
      case SetCertKeyContent L certPEM keyPEM (tlsServingCertDynamicCertProvider c) of
        (Some err, provider) \<Rightarrow>
          (Some (Wrapped ''could not parse TLS cert PEM data from Secret'' err),
           c\<lparr>tlsServingCertDynamicCertProvider := UnsetCertKeyContent provider\<rparr>)
      | (None, provider) \<Rightarrow> (None, c\<lparr>tlsServingCertDynamicCertProvider := provider\<rparr>))"

definition createNewTLSSecret ::
  "lib \<Rightarrow> impersonatorConfigController \<Rightarrow> CA \<Rightarrow> IP list \<Rightarrow> string
   \<Rightarrow> (error + Secret) \<times> impersonatorConfigController" where
  "createNewTLSSecret L c ca ips hostname =
     (let hostnames = (if hostname \<noteq> '''' then [hostname] else []) in
      case certauthority_IssueServerCert L ca hostnames ips of
        Inl err \<Rightarrow> (Inl (Wrapped ''could not create impersonation cert'' err), c)
      | Inr impersonationCert \<Rightarrow>
         (case certauthority_ToPEM L impersonationCert of
            Inl err \<Rightarrow> (Inl err, c)
          | Inr (certPEM, keyPEM) \<Rightarrow>
             (let newTLSSecret =
                    \<lparr>Name = tlsSecretName c,
                     Namespace = namespace c,
                     Labels = labels c,
                     Annotations = fmempty,
                     Data = fmupd TLSCertKey certPEM (fmupd TLSPrivateKeyKey keyPEM fmempty),
                     Secret_Type = SecretTypeTLS\<rparr> in
              case clientDo (CreateSecret newTLSSecret) c of
                (Some err, c') \<Rightarrow> (Inl err, c')
              | (None, c') \<Rightarrow> (Inr newTLSSecret, c'))))"

definition ensureTLSSecretIsCreatedAndLoaded ::
  "lib \<Rightarrow> impersonatorConfigController \<Rightarrow> certNameInfo \<Rightarrow> Secret option \<Rightarrow> CA
   \<Rightarrow> error option \<times> impersonatorConfigController" where
  "ensureTLSSecretIsCreatedAndLoaded L c nameInfo secret ca =
     (case secret of
        Some s \<Rightarrow> loadTLSCertFromSecret L c s
      | None \<Rightarrow>
          if \<not> ready nameInfo then (None, c)
          else (case createNewTLSSecret L c ca (selectedIPs nameInfo) (selectedHostname nameInfo) of
                  (Inl err, c') \<Rightarrow> (Some err, c')
                | (Inr newTLSSecret, c') \<Rightarrow> loadTLSCertFromSecret L c' newTLSSecret))"

definition ensureTLSSecret ::
  "lib \<Rightarrow> impersonatorConfigController \<Rightarrow> certNameInfo \<Rightarrow> CA
   \<Rightarrow> error option \<times> impersonatorConfigController" where
  "ensureTLSSecret L c nameInfo ca =
     (case secretsInformer c (tlsSecretName c) of
        Inl err \<Rightarrow>
          if \<not> IsNotFoundErr err then (Some err, c)
          else ensureTLSSecretIsCreatedAndLoaded L c nameInfo None ca
      | Inr secretFromInformer \<Rightarrow>
          (case deleteTLSSecretWhenCertificateDoesNotMatchDesiredState L c nameInfo ca
                  secretFromInformer of
             ((secretWasDeleted, Some err), c') \<Rightarrow> (Some err, c')
           | ((secretWasDeleted, None), c') \<Rightarrow>
               ensureTLSSecretIsCreatedAndLoaded L c' nameInfo
                 (if secretWasDeleted then None else Some secretFromInformer) ca))"

subsection \<open>The validation of a TLS secret, as the specification words it\<close>

text \<open>
  The six conditions on an existing TLS secret, in their order; \<open>firstFailingCheck\<close> is the
  first of them that does not hold, if any. The last one is the exact match of names:
  for IP addresses, as many actual as desired ones, at least one, equal in the same order,
  and no DNS name; for a hostname, exactly one DNS name, the desired one, and no IP address.
\<close>

datatype tlsSecretCheck =
    CertificatePEMDecodes
  | DecodedBytesParse
  | CertificateAndKeyPair
  | CertificateVerifiesAgainstCA
  | NameResolverReady
  | ExactNameMatch

definition exactNameMatch :: "certNameInfo \<Rightarrow> Certificate \<Rightarrow> bool" where
  "exactNameMatch nameInfo cert =
     ((length (IPAddresses cert) = length (selectedIPs nameInfo)
       \<and> 0 < length (selectedIPs nameInfo)
       \<and> list_all2 IP_Equal (IPAddresses cert) (selectedIPs nameInfo)
       \<and> DNSNames cert = [])
      \<or> (selectedHostname nameInfo \<noteq> ''''
          \<and> DNSNames cert = [selectedHostname nameInfo]
          \<and> IPAddresses cert = []))"

definition firstFailingCheck ::
  "lib \<Rightarrow> certNameInfo \<Rightarrow> CA \<Rightarrow> Secret \<Rightarrow> tlsSecretCheck option" where
  "firstFailingCheck L nameInfo ca secret =
     (case pem_Decode L (at (Data secret) TLSCertKey) of
        None \<Rightarrow> Some CertificatePEMDecodes
      | Some der \<Rightarrow>
         (case x509_ParseCertificate L der of
            Inl _ \<Rightarrow> Some DecodedBytesParse
          | Inr cert \<Rightarrow>
              if tls_X509KeyPair L (at (Data secret) TLSCertKey) (at (Data secret) TLSPrivateKeyKey)
                   \<noteq> None
              then Some CertificateAndKeyPair
              else if x509_Verify L cert (Bundle ca) \<noteq> None
              then Some CertificateVerifiesAgainstCA
              else if \<not> ready nameInfo then Some NameResolverReady
              else if \<not> exactNameMatch nameInfo cert then Some ExactNameMatch
              else None))"

text \<open>The error of a pass whose removal of the secret fails, by the check that failed.\<close>

definition removalError :: "tlsSecretCheck \<Rightarrow> error \<Rightarrow> error" where
  "removalError failing err =
     (case failing of
        CertificatePEMDecodes \<Rightarrow>
          Wrapped ''found missing or not PEM-encoded data in TLS Secret, but got error while deleting it'' err
      | DecodedBytesParse \<Rightarrow>
          Wrapped ''PEM data represented an invalid cert, but got error while deleting it'' err
      | CertificateAndKeyPair \<Rightarrow>
          Wrapped ''cert had an invalid private key, but got error while deleting it'' err
      | _ \<Rightarrow> err)"

text \<open>
  What happens at a failing check: the secret is removed, and the result says that it was
  deleted, unless the removal itself fails, whose error is then the error of the pass.
\<close>

definition removeAndReport ::
  "tlsSecretCheck \<Rightarrow> impersonatorConfigController
   \<Rightarrow> (bool \<times> error option) \<times> impersonatorConfigController" where
  "removeAndReport failing c =
     (case ensureTLSSecretIsRemoved c of
        (None, c') \<Rightarrow> ((True, None), c')
      | (Some err, c') \<Rightarrow> ((False, Some (removalError failing err)), c'))"

text \<open>
  Modelled from the spec: \<^verbatim>\<open>CA.IssueServerCert\<close> and \<^verbatim>\<open>certauthority.ToPEM\<close> are not part
  of the sources at hand. The spec describes the TLS serving secret as a PEM certificate and
  private key signed by the current certificate authority, covering exactly the names in
  effect when it was created: the certificate issued for the given DNS names and IP
  addresses decodes, parses, forms a key pair with its key, verifies against the bundle of
  the issuing CA, and carries the given DNS names and the given addresses.
\<close>

definition issuedCertificateContract :: "lib \<Rightarrow> CA \<Rightarrow> string list \<Rightarrow> IP list \<Rightarrow> bool" where
  "issuedCertificateContract L ca hostnames ips =
     (case certauthority_IssueServerCert L ca hostnames ips of
        Inl _ \<Rightarrow> False
      | Inr issued \<Rightarrow>
         (case certauthority_ToPEM L issued of
            Inl _ \<Rightarrow> False
          | Inr (certPEM, keyPEM) \<Rightarrow>
             (case pem_Decode L certPEM of
                None \<Rightarrow> False
              | Some der \<Rightarrow>
                 (case x509_ParseCertificate L der of
                    Inl _ \<Rightarrow> False
                  | Inr cert \<Rightarrow>
                      tls_X509KeyPair L certPEM keyPEM = None
                      \<and> x509_Verify L cert (Bundle ca) = None
                      \<and> DNSNames cert = hostnames
                      \<and> list_all2 IP_Equal (IPAddresses cert) ips))))"

subsection \<open>The reconciliation of annotations, as the specification words it\<close>

text \<open>
  Start from the existing annotations, overlay every desired key (with the bookkeeping
  annotation, whose value is the JSON list of the desired keys, when there are desired
  annotations), delete every key that the previous bookkeeping list records and that is
  not desired now, and drop the bookkeeping annotation when no annotation is desired.
\<close>

definition reconciledAnnotations ::
  "(string, string) fmap \<Rightarrow> (string, string) fmap \<Rightarrow> string list \<Rightarrow> string
   \<Rightarrow> (string, string) fmap" where
  "reconciledAnnotations existing desired oldKeys keysJSON =
     (let written = (if desired = fmempty then desired
                     else fmupd annotationKeysKey keysJSON desired);
          overlaid = existing ++\<^sub>f written;
          pruned = fmfilter (\<lambda>k. \<not> (k \<in> set oldKeys \<and> k |\<notin>| fmdom written)) overlaid
      in if desired = fmempty then fmdrop annotationKeysKey pruned else pruned)"

definition reconciledService :: "lib \<Rightarrow> Service \<Rightarrow> Service \<Rightarrow> string \<Rightarrow> Service" where
  "reconciledService L existing desired keysJSON =
     existing
       \<lparr>Labels := Labels desired,
        Annotations := reconciledAnnotations (Annotations existing) (Annotations desired)
                         (oldDesiredAnnotationKeys L existing) keysJSON,
        Spec_Type := Spec_Type desired,
        Spec_LoadBalancerIP := Spec_LoadBalancerIP desired,
        Spec_Selector := Spec_Selector desired\<rparr>"

section \<open>Example values\<close>

text \<open>
  A library for the examples: it parses one IP address, encodes one bundle, writes a JSON
  array of plain strings and reads two of them back, and knows one certificate, issued by
  the CA whose bundle is \<open>''ca''\<close> for the address 10.0.0.5.
\<close>

definition exampleCertificate :: Certificate where
  "exampleCertificate = \<lparr>Raw = ''der-10.0.0.5'', IPAddresses = [[10, 0, 0, 5]], DNSNames = []\<rparr>"

fun exampleMarshal :: "string list \<Rightarrow> string" where
  "exampleMarshal [] = ''''"
| "exampleMarshal [k] = [CHR 0x22] @ k @ [CHR 0x22]"
| "exampleMarshal (k # ks) = [CHR 0x22] @ k @ [CHR 0x22] @ '','' @ exampleMarshal ks"

definition exampleLib :: lib where
  "exampleLib =
     \<lparr>net_ParseIP = (\<lambda>s. if s = ''10.0.0.5''
                          then [0, 0, 0, 0, 0, 0, 0, 0, 0, 0, 0xff, 0xff, 10, 0, 0, 5] else []),
      base64_EncodeToString = (\<lambda>b. if b = ''ca'' then ''Y2E='' else ''''),
      json_Marshal = (\<lambda>ks. Inr (''['' @ exampleMarshal ks @ '']'')),
      json_Unmarshal = (\<lambda>s. if s = ''['' @ exampleMarshal [''a'', ''b''] @ '']''
                              then ([''a'', ''b''], None)
                              else if s = ''['' @ exampleMarshal [''b'', ''c''] @ '']''
                              then ([''b'', ''c''], None)
                              else ([], Some (ErrorString ''invalid character''))),
      pem_Decode = (\<lambda>b. if take 4 b = ''PEM:'' then Some (drop 4 b) else None),
      x509_ParseCertificate = (\<lambda>der. if der = ''der-10.0.0.5'' then Inr exampleCertificate
                                      else Inl (ErrorString ''x509: malformed certificate'')),
      tls_X509KeyPair = (\<lambda>certPEM keyPEM.
                           if certPEM = ''PEM:der-10.0.0.5'' \<and> keyPEM = ''PEM:key-10.0.0.5''
                           then None
                           else Some (ErrorString ''tls: private key does not match public key'')),
      x509_Verify = (\<lambda>cert roots.
                       if Raw cert = ''der-10.0.0.5'' \<and> roots = ''ca'' then None
                       else Some (ErrorString ''x509: certificate signed by unknown authority'')),
      certauthority_IssueServerCert =
        (\<lambda>ca hostnames ips.
           if Bundle ca = ''ca'' \<and> hostnames = []
              \<and> ips = [[0, 0, 0, 0, 0, 0, 0, 0, 0, 0, 0xff, 0xff, 10, 0, 0, 5]]
           then Inr (''der-10.0.0.5'', ''key-10.0.0.5'')
           else Inl (ErrorString ''unsupported'')),
      certauthority_ToPEM = (\<lambda>(der, key). Inr (''PEM:'' @ der, ''PEM:'' @ key))\<rparr>"

definition exampleController :: impersonatorConfigController where
  "exampleController =
     \<lparr>namespace = ''concierge'',
      credentialIssuerResourceName = ''credential-issuer'',
      generatedLoadBalancerServiceName = ''impersonation-proxy-load-balancer'',
      generatedClusterIPServiceName = ''impersonation-proxy-cluster-ip'',
      tlsSecretName = ''impersonation-proxy-tls'',
      caSecretName = ''impersonation-proxy-ca'',
      impersonationSignerSecretName = ''impersonation-proxy-signer'',
      k8sClient = \<lparr>apiServices = Map.empty, apiSecrets = Map.empty,
                    apiReject = (\<lambda>_. None), calls = []\<rparr>,
      servicesInformer = (\<lambda>_. Inl (StatusError StatusReasonNotFound)),
      secretsInformer = (\<lambda>_. Inl (StatusError StatusReasonNotFound)),
      labels = fmupd ''app'' ''concierge'' fmempty,
      clock = 0,
      impersonationSigningCertProvider = None,
      impersonatorFunc = Inr None,
      hasControlPlaneNodes = Some False,
      serverStopCh = None,
      errorCh = None,
      tlsServingCertDynamicCertProvider = None\<rparr>"

definition exampleSpec :: ImpersonationProxySpec where
  "exampleSpec =
     \<lparr>Mode = ''auto'', Service_Type = ''LoadBalancer'', Service_LoadBalancerIP = '''',
      Service_Annotations = fmempty, ExternalEndpoint = ''''\<rparr>"

definition exampleNameInfo :: certNameInfo where
  "exampleNameInfo =
     \<lparr>ready = True,
      selectedIPs = [[0, 0, 0, 0, 0, 0, 0, 0, 0, 0, 0xff, 0xff, 10, 0, 0, 5]],
      selectedHostname = '''',
      clientEndpoint = ''10.0.0.5''\<rparr>"

definition exampleCA :: CA where
  "exampleCA = \<lparr>Bundle = ''ca'', PrivateKeyPEM = ''key''\<rparr>"

text \<open>The load balancer service as the controller makes it, with the given ingress entries.\<close>

definition exampleLoadBalancer :: "LoadBalancerIngress list \<Rightarrow> Service" where
  "exampleLoadBalancer ingresses =
     \<lparr>Name = ''impersonation-proxy-load-balancer'',
      Namespace = ''concierge'',
      Labels = fmupd ''app'' ''concierge'' fmempty,
      Annotations = fmempty,
      Spec_Type = ''LoadBalancer'',
      Spec_Ports = [\<lparr>TargetPort = 8444, Port = 443, Protocol = ''TCP''\<rparr>],
      Spec_LoadBalancerIP = '''',
      Spec_Selector = fmupd ''app'' ''concierge'' fmempty,
      Spec_ClusterIP = ''10.96.0.17'',
      Spec_ClusterIPs = [''10.96.0.17''],
      Status_LoadBalancer_Ingress = ingresses\<rparr>"

definition withService :: "Service \<Rightarrow> impersonatorConfigController \<Rightarrow> impersonatorConfigController" where
  "withService s c =
     c\<lparr>servicesInformer := (\<lambda>n. if n = Name s then Inr s else servicesInformer c n),
       k8sClient := (k8sClient c)\<lparr>apiServices := (apiServices (k8sClient c))(Name s \<mapsto> s)\<rparr>\<rparr>"

text \<open>The server is recorded as running and has sent a value on its error channel.\<close>

definition crashedController :: "error option \<Rightarrow> impersonatorConfigController" where
  "crashedController v =
     exampleController
       \<lparr>serverStopCh := Some Open,
        errorCh := Some \<lparr>slot = Some v, closed = False, pending = None\<rparr>\<rparr>"


definition exampleTLSSecret :: Secret where
  "exampleTLSSecret =
     \<lparr>Name = ''impersonation-proxy-tls'',
      Namespace = ''concierge'',
      Labels = fmupd ''app'' ''concierge'' fmempty,
      Annotations = fmempty,
      Data = fmupd ''tls.crt'' ''PEM:der-10.0.0.5'' (fmupd ''tls.key'' ''PEM:key-10.0.0.5'' fmempty),
      Secret_Type = ''kubernetes.io/tls''\<rparr>"

text \<open>The secret is in the informer's cache and no longer on the server; the provider serves it.\<close>

definition staleTLSSecretController :: impersonatorConfigController where
  "staleTLSSecretController =
     exampleController
       \<lparr>secretsInformer := (\<lambda>n. if n = ''impersonation-proxy-tls'' then Inr exampleTLSSecret
                                 else Inl (StatusError StatusReasonNotFound)),
        tlsServingCertDynamicCertProvider := Some (''PEM:der-10.0.0.5'', ''PEM:key-10.0.0.5'')\<rparr>"


text \<open>A name that is a hostname, and a controller that sees the example TLS secret.\<close>

definition exampleHostnameInfo :: certNameInfo where
  "exampleHostnameInfo =
     \<lparr>ready = True, selectedIPs = [], selectedHostname = ''new.example.com'',
      clientEndpoint = ''new.example.com''\<rparr>"

definition withSecret :: "Secret \<Rightarrow> impersonatorConfigController \<Rightarrow> impersonatorConfigController" where
  "withSecret s c =
     c\<lparr>secretsInformer := (\<lambda>n. if n = Name s then Inr s else secretsInformer c n),
       k8sClient := (k8sClient c)\<lparr>apiSecrets := (apiSecrets (k8sClient c))(Name s \<mapsto> s)\<rparr>\<rparr>"

text \<open>A stored service with annotations written earlier, and the service now desired.\<close>

definition exampleAnnotatedLoadBalancer :: Service where
  "exampleAnnotatedLoadBalancer =
     (exampleLoadBalancer [])
       \<lparr>Annotations :=
          fmupd ''a'' ''1'' (fmupd ''b'' ''2''
            (fmupd ''credentialissuer.pinniped.dev/annotation-keys''
               (''['' @ exampleMarshal [''a'', ''b''] @ '']'') fmempty))\<rparr>"

definition exampleDesiredLoadBalancer :: Service where
  "exampleDesiredLoadBalancer =
     \<lparr>Name = ''impersonation-proxy-load-balancer'',
      Namespace = ''concierge'',
      Labels = fmupd ''app'' ''concierge'' fmempty,
      Annotations = fmupd ''b'' ''2'' (fmupd ''c'' ''3'' fmempty),
      Spec_Type = ''LoadBalancer'',
      Spec_Ports = [\<lparr>TargetPort = 8444, Port = 443, Protocol = ''TCP''\<rparr>],
      Spec_LoadBalancerIP = '''',
      Spec_Selector = fmupd ''app'' ''concierge'' fmempty,
      Spec_ClusterIP = '''',
      Spec_ClusterIPs = [],
      Status_LoadBalancer_Ingress = []\<rparr>"


text \<open>A stored load balancer whose ports are not the ones the controller asks for.\<close>

definition exampleDriftedLoadBalancer :: Service where
  "exampleDriftedLoadBalancer =
     (exampleLoadBalancer [])
       \<lparr>Spec_Ports := [\<lparr>TargetPort = 8080, Port = 80, Protocol = ''TCP''\<rparr>]\<rparr>"


section \<open>Properties\<close>

lemmas mode_defs =
  ImpersonationProxyModeDisabled_def ImpersonationProxyModeEnabled_def
  ImpersonationProxyModeAuto_def

lemmas service_type_defs =
  ImpersonationProxyServiceTypeLoadBalancer_def ImpersonationProxyServiceTypeClusterIP_def
  ImpersonationProxyServiceTypeNone_def

subsection \<open>Desired state\<close>

text \<open>
  Claim C4. With the control-plane flag cached, the four desired-state booleans are:
  the impersonator should run when the mode is enabled, or when it is auto and there is
  no control plane; the load balancer should exist when the impersonator should run and the
  service type is LoadBalancer; the cluster IP service when it should run and the type is
  ClusterIP; the TLS secret when the impersonator should run. No validity of the spec is
  needed for this.
\<close>

theorem desired_state_booleans:
  "hasControlPlaneNodes c = Some hasControlPlane \<Longrightarrow>
   shouldHaveImpersonator c config =
     Inr (Mode config = ImpersonationProxyModeEnabled
          \<or> (Mode config = ImpersonationProxyModeAuto \<and> \<not> hasControlPlane))
   \<and> shouldHaveLoadBalancer c config =
     Inr ((Mode config = ImpersonationProxyModeEnabled
           \<or> (Mode config = ImpersonationProxyModeAuto \<and> \<not> hasControlPlane))
          \<and> Service_Type config = ImpersonationProxyServiceTypeLoadBalancer)
   \<and> shouldHaveClusterIPService c config =
     Inr ((Mode config = ImpersonationProxyModeEnabled
           \<or> (Mode config = ImpersonationProxyModeAuto \<and> \<not> hasControlPlane))
          \<and> Service_Type config = ImpersonationProxyServiceTypeClusterIP)
   \<and> shouldHaveTLSSecret c config =
     Inr (Mode config = ImpersonationProxyModeEnabled
          \<or> (Mode config = ImpersonationProxyModeAuto \<and> \<not> hasControlPlane))"
  by (auto simp: shouldHaveImpersonator_def shouldHaveLoadBalancer_def
      shouldHaveClusterIPService_def shouldHaveTLSSecret_def enabledByAutoMode_def)

theorem desired_state_booleans_witness:
  "hasControlPlaneNodes exampleController = Some False
   \<and> shouldHaveImpersonator exampleController exampleSpec = Inr True
   \<and> shouldHaveLoadBalancer exampleController exampleSpec = Inr True
   \<and> shouldHaveClusterIPService exampleController exampleSpec = Inr False
   \<and> shouldHaveTLSSecret exampleController exampleSpec = Inr True"
proof -
  have h: "hasControlPlaneNodes exampleController = Some False"
    by (simp add: exampleController_def)
  show ?thesis
    using h desired_state_booleans [OF h, of exampleSpec]
    by (simp add: exampleSpec_def mode_defs service_type_defs)
qed

subsection \<open>The composed status\<close>

text \<open>
  Claim C2, amended. The status is composed in priority order: mode disabled gives an error
  status whose reason is the constant \<open>DisabledStrategyReason\<close>, with the message that the
  proxy was explicitly disabled; mode auto with a control plane gives an error status with
  the same reason \<open>DisabledStrategyReason\<close>, told apart by its message only; a certificate
  name that is not ready gives an error status with reason \<open>PendingStrategyReason\<close>;
  otherwise a success status with reason \<open>ListeningStrategyReason\<close>, the endpoint
  \<open>''https://''\<close> followed by the client endpoint, and the encoded CA bundle. The CA is
  there whenever the impersonator should run, which is the third hypothesis.
\<close>

theorem doSyncResult_priority:
  "hasControlPlaneNodes c = Some hasControlPlane \<Longrightarrow>
   Mode config = ImpersonationProxyModeDisabled
     \<or> (Mode config = ImpersonationProxyModeAuto \<and> hasControlPlane)
     \<or> caOpt = Some ca \<Longrightarrow>
   doSyncResult L c nameInfo config caOpt =
     Inr (if Mode config = ImpersonationProxyModeDisabled
          then \<lparr>Type = ImpersonationProxyStrategyType, Status = ErrorStrategyStatus,
                Reason = DisabledStrategyReason,
                Message = ''impersonation proxy was explicitly disabled by configuration'',
                LastUpdateTime = clock c, Frontend = None\<rparr>
          else if Mode config = ImpersonationProxyModeAuto \<and> hasControlPlane
          then \<lparr>Type = ImpersonationProxyStrategyType, Status = ErrorStrategyStatus,
                Reason = DisabledStrategyReason,
                Message = ''automatically determined that impersonation proxy should be disabled'',
                LastUpdateTime = clock c, Frontend = None\<rparr>
          else if \<not> ready nameInfo
          then \<lparr>Type = ImpersonationProxyStrategyType, Status = ErrorStrategyStatus,
                Reason = PendingStrategyReason,
                Message = ''waiting for load balancer Service to be assigned IP or hostname'',
                LastUpdateTime = clock c, Frontend = None\<rparr>
          else \<lparr>Type = ImpersonationProxyStrategyType, Status = SuccessStrategyStatus,
                Reason = ListeningStrategyReason,
                Message = ''impersonation proxy is ready to accept client connections'',
                LastUpdateTime = clock c,
                Frontend = Some
                  \<lparr>Frontend_Type = ImpersonationProxyFrontendType,
                   Frontend_ImpersonationProxyInfo = Some
                     \<lparr>Endpoint = ''https://'' @ clientEndpoint nameInfo,
                      CertificateAuthorityData = base64_EncodeToString L (Bundle ca)\<rparr>\<rparr>\<rparr>)"
  by (auto simp: doSyncResult_def disabledExplicitly_def disabledByAutoMode_def mode_defs)

theorem doSyncResult_priority_witness:
  "hasControlPlaneNodes exampleController = Some False
   \<and> (Mode exampleSpec = ImpersonationProxyModeDisabled
       \<or> (Mode exampleSpec = ImpersonationProxyModeAuto \<and> False)
       \<or> Some exampleCA = Some exampleCA)
   \<and> doSyncResult exampleLib exampleController exampleNameInfo exampleSpec (Some exampleCA) =
       Inr \<lparr>Type = ImpersonationProxyStrategyType, Status = SuccessStrategyStatus,
            Reason = ListeningStrategyReason,
            Message = ''impersonation proxy is ready to accept client connections'',
            LastUpdateTime = 0,
            Frontend = Some
              \<lparr>Frontend_Type = ImpersonationProxyFrontendType,
               Frontend_ImpersonationProxyInfo = Some
                 \<lparr>Endpoint = ''https://10.0.0.5'', CertificateAuthorityData = ''Y2E=''\<rparr>\<rparr>\<rparr>"
proof -
  have h: "hasControlPlaneNodes exampleController = Some False"
    by (simp add: exampleController_def)
  have g: "Mode exampleSpec = ImpersonationProxyModeDisabled
       \<or> (Mode exampleSpec = ImpersonationProxyModeAuto \<and> False)
       \<or> Some exampleCA = Some exampleCA"
    by simp
  show ?thesis
    using h doSyncResult_priority [OF h g, of exampleLib exampleNameInfo]
    by (simp add: exampleSpec_def exampleController_def exampleNameInfo_def exampleLib_def
        exampleCA_def mode_defs)
qed

text \<open>
  The claim as stated gives the two disabled cases two reasons, ``disabled-explicitly'' and
  ``disabled-automatically''. With a control plane, the explicitly disabled spec and the
  auto spec are given one and the same reason.
\<close>

theorem doSyncResult_disabled_reasons_counterexample:
  "map_sum id Reason
     (doSyncResult exampleLib (exampleController\<lparr>hasControlPlaneNodes := Some True\<rparr>)
        notReady (exampleSpec\<lparr>Mode := ''disabled''\<rparr>) None) = Inr DisabledStrategyReason
   \<and> map_sum id Reason
     (doSyncResult exampleLib (exampleController\<lparr>hasControlPlaneNodes := Some True\<rparr>)
        notReady (exampleSpec\<lparr>Mode := ''auto''\<rparr>) None) = Inr DisabledStrategyReason"
  by (simp add: doSyncResult_def disabledExplicitly_def disabledByAutoMode_def mode_defs
      exampleController_def exampleSpec_def)

subsection \<open>The certificate name from the load balancer\<close>

lemma firstIngressHostname_find:
  "firstIngressHostname ingresses =
     map_option (\<lambda>i. \<lparr>ready = True, selectedIPs = [], selectedHostname = Hostname i,
                       clientEndpoint = Hostname i\<rparr>)
       (List.find (\<lambda>i. Hostname i \<noteq> '''') ingresses)"
  by (induction ingresses) (simp_all add: Let_def)

lemma firstIngressIP_find:
  "firstIngressIP L ingresses =
     map_option (\<lambda>i. \<lparr>ready = True, selectedIPs = [net_ParseIP L (IP i)], selectedHostname = '''',
                       clientEndpoint = IP i\<rparr>)
       (List.find (\<lambda>i. net_ParseIP L (IP i) \<noteq> []) ingresses)"
  by (induction ingresses) (simp_all add: Let_def)

text \<open>
  Claim C1, amended. The load balancer service exists and has at least one ingress entry.
  When the first entry has neither a hostname nor an IP string, the name is not ready,
  whatever the later entries hold. Otherwise the first entry with a hostname, if there is
  one, gives a ready name with that hostname; failing that, the first entry whose IP string
  parses gives a ready name with exactly that IP; failing that, the result is an error.
\<close>

theorem findTLSCertificateNameFromLoadBalancer_ingress:
  "servicesInformer c (generatedLoadBalancerServiceName c) = Inr lb \<Longrightarrow>
   Status_LoadBalancer_Ingress lb = first # others \<Longrightarrow>
   findTLSCertificateNameFromLoadBalancer L c =
     (if Hostname first = '''' \<and> IP first = ''''
      then Inr \<lparr>ready = False, selectedIPs = [], selectedHostname = '''', clientEndpoint = ''''\<rparr>
      else (case List.find (\<lambda>i. Hostname i \<noteq> '''') (first # others) of
              Some i \<Rightarrow> Inr \<lparr>ready = True, selectedIPs = [], selectedHostname = Hostname i,
                             clientEndpoint = Hostname i\<rparr>
            | None \<Rightarrow>
                (case List.find (\<lambda>i. net_ParseIP L (IP i) \<noteq> []) (first # others) of
                   Some i \<Rightarrow> Inr \<lparr>ready = True, selectedIPs = [net_ParseIP L (IP i)],
                                  selectedHostname = '''', clientEndpoint = IP i\<rparr>
                 | None \<Rightarrow>
                     Inl (ErrorString
                            (''could not find valid IP addresses or hostnames from load balancer ''
                             @ namespace c @ ''/'' @ Name lb)))))"
  unfolding findTLSCertificateNameFromLoadBalancer_def firstIngressHostname_find firstIngressIP_find
  by (simp add: notReady_def Let_def split: option.splits)

text \<open>An entry with an IP comes first, an entry with a hostname second: the hostname wins.\<close>

theorem findTLSCertificateNameFromLoadBalancer_ingress_witness:
  "servicesInformer
     (withService (exampleLoadBalancer
        [\<lparr>IP = ''10.0.0.5'', Hostname = ''''\<rparr>, \<lparr>IP = '''', Hostname = ''lb.example.com''\<rparr>])
        exampleController)
     (generatedLoadBalancerServiceName
        (withService (exampleLoadBalancer
           [\<lparr>IP = ''10.0.0.5'', Hostname = ''''\<rparr>, \<lparr>IP = '''', Hostname = ''lb.example.com''\<rparr>])
           exampleController))
     = Inr (exampleLoadBalancer
        [\<lparr>IP = ''10.0.0.5'', Hostname = ''''\<rparr>, \<lparr>IP = '''', Hostname = ''lb.example.com''\<rparr>])
   \<and> findTLSCertificateNameFromLoadBalancer exampleLib
       (withService (exampleLoadBalancer
          [\<lparr>IP = ''10.0.0.5'', Hostname = ''''\<rparr>, \<lparr>IP = '''', Hostname = ''lb.example.com''\<rparr>])
          exampleController)
     = Inr \<lparr>ready = True, selectedIPs = [], selectedHostname = ''lb.example.com'',
            clientEndpoint = ''lb.example.com''\<rparr>"
proof -
  let ?lb = "exampleLoadBalancer
        [\<lparr>IP = ''10.0.0.5'', Hostname = ''''\<rparr>, \<lparr>IP = '''', Hostname = ''lb.example.com''\<rparr>]"
  let ?c = "withService ?lb exampleController"
  have h: "servicesInformer ?c (generatedLoadBalancerServiceName ?c) = Inr ?lb"
    by (simp add: withService_def exampleController_def exampleLoadBalancer_def)
  have g: "Status_LoadBalancer_Ingress ?lb =
             \<lparr>IP = ''10.0.0.5'', Hostname = ''''\<rparr> # [\<lparr>IP = '''', Hostname = ''lb.example.com''\<rparr>]"
    by (simp add: exampleLoadBalancer_def)
  show ?thesis
    using h findTLSCertificateNameFromLoadBalancer_ingress [OF h g, of exampleLib]
    by simp
qed

text \<open>
  The claim as stated promises the first hostname of the list whenever the list is not
  empty. Here the list is not empty and its second entry has a hostname, and the name is
  not ready, because the first entry is blank.
\<close>

theorem findTLSCertificateNameFromLoadBalancer_blank_first_counterexample:
  "findTLSCertificateNameFromLoadBalancer exampleLib
     (withService (exampleLoadBalancer
        [\<lparr>IP = '''', Hostname = ''''\<rparr>, \<lparr>IP = '''', Hostname = ''lb.example.com''\<rparr>])
        exampleController)
   = Inr \<lparr>ready = False, selectedIPs = [], selectedHostname = '''', clientEndpoint = ''''\<rparr>"
  by (simp add: findTLSCertificateNameFromLoadBalancer_def withService_def
      exampleController_def exampleLoadBalancer_def notReady_def)

subsection \<open>The process of the proxy server\<close>

lemma NewAggregate_crash: "NewAggregate [Some e, None] = Some (Aggregate [e])"
  by (simp add: NewAggregate_def List.map_filter_def)

lemma stop_after_crash:
  "serverStopCh c = Some Open \<Longrightarrow>
   ensureImpersonatorIsStopped False (c\<lparr>errorCh := Some (ch\<lparr>slot := None, closed := True\<rparr>)\<rparr>)
     = Inr (None, c\<lparr>serverStopCh := None, errorCh := None\<rparr>)"
  by (simp add: ensureImpersonatorIsStopped_def)

lemma start_still_running:
  "serverStopCh c = Some Open \<Longrightarrow> errorCh c = Some ch \<Longrightarrow> \<not> closed ch \<Longrightarrow> slot ch = None \<Longrightarrow>
   ensureImpersonatorIsStarted c = Inr (None, c)"
  by (simp add: ensureImpersonatorIsStarted_def)

lemma start_after_crash:
  "serverStopCh c = Some Open \<Longrightarrow> errorCh c = Some ch \<Longrightarrow> \<not> closed ch \<Longrightarrow> slot ch = Some v \<Longrightarrow>
   ensureImpersonatorIsStarted c =
     Inr (NewAggregate
            [Some (case v of
                     None \<Rightarrow> ErrorString ''unexpected shutdown of proxy server''
                   | Some runningErr \<Rightarrow> runningErr),
             None],
          c\<lparr>serverStopCh := None, errorCh := None\<rparr>)"
  by (cases v) (simp_all add: ensureImpersonatorIsStarted_def stop_after_crash)

lemma start_when_stopped:
  "serverStopCh c = None \<Longrightarrow> impersonatorFunc c = Inr r \<Longrightarrow>
   ensureImpersonatorIsStarted c =
     Inr (None, c\<lparr>serverStopCh := Some Open,
                   errorCh := Some \<lparr>slot = None, closed = False, pending = Some r\<rparr>\<rparr>)"
  by (simp add: ensureImpersonatorIsStarted_def)

text \<open>
  Claim C6. Start is called while the server is recorded as running: the stop channel is
  there and open, the error channel is there and not closed. If the error channel is empty,
  Start returns no error and leaves the controller as it is. If it holds a value, Start
  closes the error channel and runs the Stop procedure, which then reads the nil error from
  the closed channel and clears both channels; Start returns the aggregate of the crash
  error (the message of an unexpected shutdown when the value is the nil error) and of that
  stop error, that is the aggregate of the crash error alone. The controller is then
  recorded as stopped, and the next Start launches the server again when the factory does
  not fail.
\<close>

theorem start_while_running:
  "serverStopCh c = Some Open \<Longrightarrow> errorCh c = Some ch \<Longrightarrow> \<not> closed ch \<Longrightarrow>
   ensureImpersonatorIsStarted c =
     (case slot ch of
        None \<Rightarrow> Inr (None, c)
      | Some v \<Rightarrow>
          Inr (Some (Aggregate
                 [case v of
                    None \<Rightarrow> ErrorString ''unexpected shutdown of proxy server''
                  | Some runningErr \<Rightarrow> runningErr]),
               c\<lparr>serverStopCh := None, errorCh := None\<rparr>))
   \<and> ensureImpersonatorIsStopped False (c\<lparr>errorCh := Some (ch\<lparr>slot := None, closed := True\<rparr>)\<rparr>)
       = Inr (None, c\<lparr>serverStopCh := None, errorCh := None\<rparr>)
   \<and> (impersonatorFunc c = Inr r \<longrightarrow>
        ensureImpersonatorIsStarted (c\<lparr>serverStopCh := None, errorCh := None\<rparr>)
          = Inr (None, c\<lparr>serverStopCh := Some Open,
                          errorCh := Some \<lparr>slot = None, closed = False, pending = Some r\<rparr>\<rparr>))"
proof (intro conjI impI)
  assume a: "serverStopCh c = Some Open" "errorCh c = Some ch" "\<not> closed ch"
  show "ensureImpersonatorIsStarted c =
     (case slot ch of
        None \<Rightarrow> Inr (None, c)
      | Some v \<Rightarrow>
          Inr (Some (Aggregate
                 [case v of
                    None \<Rightarrow> ErrorString ''unexpected shutdown of proxy server''
                  | Some runningErr \<Rightarrow> runningErr]),
               c\<lparr>serverStopCh := None, errorCh := None\<rparr>))"
  proof (cases "slot ch")
    case None
    then show ?thesis using a by (simp add: start_still_running)
  next
    case (Some v)
    then show ?thesis using a by (simp add: start_after_crash NewAggregate_crash)
  qed
  show "ensureImpersonatorIsStopped False (c\<lparr>errorCh := Some (ch\<lparr>slot := None, closed := True\<rparr>)\<rparr>)
       = Inr (None, c\<lparr>serverStopCh := None, errorCh := None\<rparr>)"
    using a(1) by (rule stop_after_crash)
next
  assume r: "impersonatorFunc c = Inr r"
  have "ensureImpersonatorIsStarted (c\<lparr>serverStopCh := None, errorCh := None\<rparr>)
          = Inr (None, c\<lparr>serverStopCh := None, errorCh := None\<rparr>
                        \<lparr>serverStopCh := Some Open,
                          errorCh := Some \<lparr>slot = None, closed = False, pending = Some r\<rparr>\<rparr>)"
    by (rule start_when_stopped) (simp_all add: r)
  then show "ensureImpersonatorIsStarted (c\<lparr>serverStopCh := None, errorCh := None\<rparr>)
          = Inr (None, c\<lparr>serverStopCh := Some Open,
                          errorCh := Some \<lparr>slot = None, closed = False, pending = Some r\<rparr>\<rparr>)"
    by simp
qed

theorem start_while_running_witness:
  "serverStopCh (crashedController None) = Some Open
   \<and> errorCh (crashedController None) = Some \<lparr>slot = Some None, closed = False, pending = None\<rparr>
   \<and> \<not> closed \<lparr>slot = Some None, closed = False, pending = None\<rparr>
   \<and> ensureImpersonatorIsStarted (crashedController None) =
       Inr (Some (Aggregate [ErrorString ''unexpected shutdown of proxy server'']), exampleController)
   \<and> impersonatorFunc (crashedController None) = Inr None
   \<and> ensureImpersonatorIsStarted exampleController =
       Inr (None, exampleController
                    \<lparr>serverStopCh := Some Open,
                     errorCh := Some \<lparr>slot = None, closed = False, pending = Some None\<rparr>\<rparr>)"
proof -
  let ?ch = "\<lparr>slot = Some None, closed = False, pending = None\<rparr>"
  have h1: "serverStopCh (crashedController None) = Some Open"
    and h2: "errorCh (crashedController None) = Some ?ch"
    and h3: "\<not> closed ?ch"
    and h4: "impersonatorFunc (crashedController None) = Inr None"
    and h5: "crashedController None\<lparr>serverStopCh := None, errorCh := None\<rparr> = exampleController"
    and h6: "crashedController None\<lparr>serverStopCh := Some Open,
                errorCh := Some \<lparr>slot = None, closed = False, pending = Some None\<rparr>\<rparr>
             = exampleController\<lparr>serverStopCh := Some Open,
                errorCh := Some \<lparr>slot = None, closed = False, pending = Some None\<rparr>\<rparr>"
    by (simp_all add: crashedController_def exampleController_def)
  show ?thesis
    using h1 h2 h3 h4 start_while_running [OF h1 h2 h3, of None]
    by (simp add: h5 h6)
qed


subsection \<open>The removal of the TLS secret\<close>

text \<open>
  Claim C9, at an input where the code does not do what the claim says. The TLS secret is in
  the informer's cache, another replica has deleted it on the server, and the provider
  holds its certificate. The removal makes the delete call, which returns not-found, and
  completes without error; the provider still holds the certificate.
\<close>

theorem ensureTLSSecretIsRemoved_not_found_keeps_provider:
  "ensureTLSSecretIsRemoved staleTLSSecretController =
     (None, staleTLSSecretController
              \<lparr>k8sClient := (k8sClient staleTLSSecretController)
                 \<lparr>calls := [DeleteSecret ''impersonation-proxy-tls'']\<rparr>\<rparr>)
   \<and> tlsServingCertDynamicCertProvider (snd (ensureTLSSecretIsRemoved staleTLSSecretController))
       = Some (''PEM:der-10.0.0.5'', ''PEM:key-10.0.0.5'')"
  by (simp add: ensureTLSSecretIsRemoved_def tlsSecretExists_def clientDo_def apiDo_def
      staleTLSSecretController_def exampleController_def IsNotFound_def Let_def)



subsection \<open>The validation of an existing TLS secret\<close>

lemma actualIPsEqualDesired_list_all2:
  "length actualIPs = length desiredIPs \<Longrightarrow>
   actualIPsEqualDesired actualIPs desiredIPs = list_all2 IP_Equal actualIPs desiredIPs"
  by (induction actualIPs desiredIPs rule: list_induct2) simp_all

lemma certHostnameAndIPMatchDesiredState_cases:
  "certHostnameAndIPMatchDesiredState d a h hs =
     ((length a = length d \<and> 0 < length d \<and> list_all2 IP_Equal a d \<and> hs = [])
      \<or> (h \<noteq> '''' \<and> hs = [h] \<and> a = []))"
proof (cases hs)
  case Nil
  then show ?thesis
    by (cases "length a = length d")
       (auto simp: certHostnameAndIPMatchDesiredState_def actualIPsEqualDesired_list_all2)
next
  case (Cons x xs)
  then show ?thesis
    by (cases xs) (auto simp: certHostnameAndIPMatchDesiredState_def)
qed

lemma certHostnameAndIPMatchDesiredState_exact:
  "certHostnameAndIPMatchDesiredState (selectedIPs nameInfo) (IPAddresses cert)
     (selectedHostname nameInfo) (DNSNames cert) = exactNameMatch nameInfo cert"
  unfolding certHostnameAndIPMatchDesiredState_cases exactNameMatch_def by (rule refl)

lemma delete_by_first_failing_check:
  "deleteTLSSecretWhenCertificateDoesNotMatchDesiredState L c nameInfo ca secret =
     (case firstFailingCheck L nameInfo ca secret of
        None \<Rightarrow> ((False, None), c)
      | Some failing \<Rightarrow> removeAndReport failing c)"
proof (cases "pem_Decode L (at (Data secret) TLSCertKey)")
  case None
  then show ?thesis
    by (cases "ensureTLSSecretIsRemoved c")
       (simp add: deleteTLSSecretWhenCertificateDoesNotMatchDesiredState_def firstFailingCheck_def
          removeAndReport_def removalError_def split: option.splits)
next
  case (Some der)
  note der = this
  show ?thesis
  proof (cases "x509_ParseCertificate L der")
    case (Inl parseErr)
    then show ?thesis using der
      by (cases "ensureTLSSecretIsRemoved c")
         (simp add: deleteTLSSecretWhenCertificateDoesNotMatchDesiredState_def firstFailingCheck_def
            removeAndReport_def removalError_def split: option.splits)
  next
    case (Inr cert)
    then show ?thesis using der
      by (cases "ensureTLSSecretIsRemoved c")
         (simp add: deleteTLSSecretWhenCertificateDoesNotMatchDesiredState_def firstFailingCheck_def
            removeAndReport_def removalError_def Pool_def Let_def
            certHostnameAndIPMatchDesiredState_exact split: option.splits)
  qed
qed

lemma ensureTLSSecretIsRemoved_found:
  "secretsInformer c (tlsSecretName c) = Inr secret \<Longrightarrow>
   ensureTLSSecretIsRemoved c =
     (case clientDo (DeleteSecret (tlsSecretName c)) c of
        (err, c') \<Rightarrow>
          if IsNotFound err then (None, c')
          else if err \<noteq> None then (err, c')
          else (None, c'\<lparr>tlsServingCertDynamicCertProvider := None\<rparr>))"
  by (simp add: ensureTLSSecretIsRemoved_def tlsSecretExists_def)

lemma ensureTLSSecret_by_first_failing_check:
  assumes inf: "secretsInformer c (tlsSecretName c) = Inr secret"
  shows "ensureTLSSecret L c nameInfo ca =
     (case firstFailingCheck L nameInfo ca secret of
        None \<Rightarrow> ensureTLSSecretIsCreatedAndLoaded L c nameInfo (Some secret) ca
      | Some failing \<Rightarrow>
         (case ensureTLSSecretIsRemoved c of
            (None, c') \<Rightarrow> ensureTLSSecretIsCreatedAndLoaded L c' nameInfo None ca
          | (Some err, c') \<Rightarrow> (Some (removalError failing err), c')))"
proof (cases "firstFailingCheck L nameInfo ca secret")
  case None
  then show ?thesis
    using inf by (simp add: ensureTLSSecret_def delete_by_first_failing_check)
next
  case (Some failing)
  obtain err c' where rm: "ensureTLSSecretIsRemoved c = (err, c')"
    by (cases "ensureTLSSecretIsRemoved c")
  show ?thesis
    using Some inf rm
    by (cases err) (simp_all add: ensureTLSSecret_def delete_by_first_failing_check removeAndReport_def)
qed

text \<open>
  Claim C3. An existing TLS secret, found by the informer, is checked by six conditions in
  this order: the certificate PEM decodes, the decoded bytes parse as a certificate, the
  certificate and the private key form a key pair, the certificate verifies against the
  bundle of the current CA, the name resolver is ready, and the names match exactly (which
  is what \<open>certHostnameAndIPMatchDesiredState\<close> computes, last conjunct). When all six hold
  the secret is kept: nothing is called, and the secret is the one loaded. At the first
  condition that fails the secret is removed, which is the delete call of the client
  (third conjunct), and the pass goes on as if there were no secret; when the delete call
  fails with an error other than not-found, that error ends the pass.
\<close>

theorem tls_secret_validation_chain:
  "secretsInformer c (tlsSecretName c) = Inr secret \<Longrightarrow>
   deleteTLSSecretWhenCertificateDoesNotMatchDesiredState L c nameInfo ca secret =
     (case firstFailingCheck L nameInfo ca secret of
        None \<Rightarrow> ((False, None), c)
      | Some failing \<Rightarrow> removeAndReport failing c)
   \<and> ensureTLSSecret L c nameInfo ca =
     (case firstFailingCheck L nameInfo ca secret of
        None \<Rightarrow> ensureTLSSecretIsCreatedAndLoaded L c nameInfo (Some secret) ca
      | Some failing \<Rightarrow>
         (case ensureTLSSecretIsRemoved c of
            (None, c') \<Rightarrow> ensureTLSSecretIsCreatedAndLoaded L c' nameInfo None ca
          | (Some err, c') \<Rightarrow> (Some (removalError failing err), c')))
   \<and> ensureTLSSecretIsRemoved c =
     (case clientDo (DeleteSecret (tlsSecretName c)) c of
        (err, c') \<Rightarrow>
          if IsNotFound err then (None, c')
          else if err \<noteq> None then (err, c')
          else (None, c'\<lparr>tlsServingCertDynamicCertProvider := None\<rparr>))
   \<and> certHostnameAndIPMatchDesiredState (selectedIPs nameInfo) (IPAddresses cert)
        (selectedHostname nameInfo) (DNSNames cert) = exactNameMatch nameInfo cert"
  by (simp only: delete_by_first_failing_check ensureTLSSecret_by_first_failing_check
      ensureTLSSecretIsRemoved_found certHostnameAndIPMatchDesiredState_exact simp_thms)

text \<open>
  The secret holds a certificate for 10.0.0.5 and the desired name is a hostname: the first
  five checks hold, the sixth fails, and the secret is deleted.
\<close>

theorem tls_secret_validation_chain_witness:
  "secretsInformer (withSecret exampleTLSSecret exampleController)
      (tlsSecretName (withSecret exampleTLSSecret exampleController)) = Inr exampleTLSSecret
   \<and> firstFailingCheck exampleLib exampleHostnameInfo exampleCA exampleTLSSecret = Some ExactNameMatch
   \<and> deleteTLSSecretWhenCertificateDoesNotMatchDesiredState exampleLib
        (withSecret exampleTLSSecret exampleController) exampleHostnameInfo exampleCA exampleTLSSecret
      = ((True, None),
         exampleController
           \<lparr>secretsInformer := (\<lambda>n. if n = ''impersonation-proxy-tls'' then Inr exampleTLSSecret
                                     else Inl (StatusError StatusReasonNotFound)),
            k8sClient := \<lparr>apiServices = Map.empty, apiSecrets = Map.empty,
                           apiReject = (\<lambda>_. None),
                           calls = [DeleteSecret ''impersonation-proxy-tls'']\<rparr>\<rparr>)"
proof -
  let ?c = "withSecret exampleTLSSecret exampleController"
  have h: "secretsInformer ?c (tlsSecretName ?c) = Inr exampleTLSSecret"
    by (simp add: withSecret_def exampleController_def exampleTLSSecret_def)
  have f: "firstFailingCheck exampleLib exampleHostnameInfo exampleCA exampleTLSSecret
             = Some ExactNameMatch"
    by (simp add: firstFailingCheck_def exampleLib_def exampleHostnameInfo_def exampleCA_def
        exampleTLSSecret_def at_def TLSCertKey_def TLSPrivateKeyKey_def exactNameMatch_def
        exampleCertificate_def)
  have r: "removeAndReport ExactNameMatch ?c
      = ((True, None),
         exampleController
           \<lparr>secretsInformer := (\<lambda>n. if n = ''impersonation-proxy-tls'' then Inr exampleTLSSecret
                                     else Inl (StatusError StatusReasonNotFound)),
            k8sClient := \<lparr>apiServices = Map.empty, apiSecrets = Map.empty,
                           apiReject = (\<lambda>_. None),
                           calls = [DeleteSecret ''impersonation-proxy-tls'']\<rparr>\<rparr>)"
    by (simp add: removeAndReport_def ensureTLSSecretIsRemoved_def tlsSecretExists_def
        clientDo_def apiDo_def withSecret_def exampleController_def exampleTLSSecret_def
        IsNotFound_def Let_def fun_eq_iff)
  show ?thesis
    using h f r tls_secret_validation_chain [OF h, of exampleLib exampleHostnameInfo exampleCA]
    by simp
qed


subsection \<open>A created TLS secret is kept by the next pass\<close>

lemma loadTLSCertFromSecret_key_pair:
  "tls_X509KeyPair L (at (Data secret) TLSCertKey) (at (Data secret) TLSPrivateKeyKey) = None \<Longrightarrow>
   loadTLSCertFromSecret L c secret =
     (None, c\<lparr>tlsServingCertDynamicCertProvider :=
                 Some (at (Data secret) TLSCertKey, at (Data secret) TLSPrivateKeyKey)\<rparr>)"
  by (simp add: loadTLSCertFromSecret_def SetCertKeyContent_def Let_def)

lemma createNewTLSSecret_Data:
  assumes "createNewTLSSecret L c ca ips hostname = (Inr secret, c')"
  shows "\<exists>issued.
           certauthority_IssueServerCert L ca (if hostname \<noteq> '''' then [hostname] else []) ips
             = Inr issued
           \<and> certauthority_ToPEM L issued
             = Inr (at (Data secret) TLSCertKey, at (Data secret) TLSPrivateKeyKey)"
proof (cases "certauthority_IssueServerCert L ca (if hostname \<noteq> '''' then [hostname] else []) ips")
  case (Inl err)
  then show ?thesis using assms by (simp add: createNewTLSSecret_def)
next
  case (Inr issued)
  note issued = this
  show ?thesis
  proof (cases "certauthority_ToPEM L issued")
    case (Inl err)
    then show ?thesis using assms issued by (simp add: createNewTLSSecret_def)
  next
    case (Inr pems)
    obtain certPEM keyPEM where pems: "pems = (certPEM, keyPEM)" by (cases pems)
    let ?s = "\<lparr>Name = tlsSecretName c, Namespace = namespace c, Labels = labels c,
               Annotations = fmempty,
               Data = fmupd TLSCertKey certPEM (fmupd TLSPrivateKeyKey keyPEM fmempty),
               Secret_Type = SecretTypeTLS\<rparr>"
    obtain err c'' where cr: "clientDo (CreateSecret ?s) c = (err, c'')"
      by (cases "clientDo (CreateSecret ?s) c")
    have "secret = ?s"
      using assms issued Inr pems cr
      by (cases err) (simp_all add: createNewTLSSecret_def Let_def)
    then have "at (Data secret) TLSCertKey = certPEM" "at (Data secret) TLSPrivateKeyKey = keyPEM"
      by (simp_all add: at_def TLSCertKey_def TLSPrivateKeyKey_def)
    then show ?thesis using issued Inr pems by simp
  qed
qed

text \<open>
  Claim C7. The name is ready and is a list of IP addresses, as \<open>[10.0.0.5]\<close> is, with no
  hostname. The TLS secret that the controller creates from a CA and that name, once the
  informer shows it, passes on the next pass all six checks against the same CA and the
  same name: it is not deleted, nothing is created, and its certificate is the one loaded.
  What issuing a certificate does is outside the sources and is the contract of
  \<open>issuedCertificateContract\<close>.
\<close>

theorem created_tls_secret_round_trip:
  assumes rdy: "ready nameInfo"
    and ips: "selectedIPs nameInfo \<noteq> []"
    and host: "selectedHostname nameInfo = ''''"
    and contract: "issuedCertificateContract L ca [] (selectedIPs nameInfo)"
    and created: "createNewTLSSecret L c1 ca (selectedIPs nameInfo) (selectedHostname nameInfo)
                    = (Inr secret, c1')"
    and inf: "secretsInformer c2 (tlsSecretName c2) = Inr secret"
  shows "firstFailingCheck L nameInfo ca secret = None
     \<and> deleteTLSSecretWhenCertificateDoesNotMatchDesiredState L c2 nameInfo ca secret
         = ((False, None), c2)
     \<and> ensureTLSSecret L c2 nameInfo ca =
         (None, c2\<lparr>tlsServingCertDynamicCertProvider :=
                      Some (at (Data secret) TLSCertKey, at (Data secret) TLSPrivateKeyKey)\<rparr>)"
proof -
  from createNewTLSSecret_Data [OF created] host
  obtain issued where
    issued: "certauthority_IssueServerCert L ca [] (selectedIPs nameInfo) = Inr issued"
    and pem: "certauthority_ToPEM L issued
               = Inr (at (Data secret) TLSCertKey, at (Data secret) TLSPrivateKeyKey)"
    by auto
  from contract issued pem obtain der cert where
    der: "pem_Decode L (at (Data secret) TLSCertKey) = Some der"
    and cert: "x509_ParseCertificate L der = Inr cert"
    and pair: "tls_X509KeyPair L (at (Data secret) TLSCertKey) (at (Data secret) TLSPrivateKeyKey)
                 = None"
    and verify: "x509_Verify L cert (Bundle ca) = None"
    and dns: "DNSNames cert = []"
    and addrs: "list_all2 IP_Equal (IPAddresses cert) (selectedIPs nameInfo)"
    by (auto simp: issuedCertificateContract_def split: option.splits sum.splits)
  have len: "length (IPAddresses cert) = length (selectedIPs nameInfo)"
    using addrs by (rule list_all2_lengthD)
  have match: "exactNameMatch nameInfo cert"
    using len ips dns addrs by (simp add: exactNameMatch_def)
  have none: "firstFailingCheck L nameInfo ca secret = None"
    using der cert pair verify rdy match by (simp add: firstFailingCheck_def)
  have keep: "deleteTLSSecretWhenCertificateDoesNotMatchDesiredState L c2 nameInfo ca secret
         = ((False, None), c2)"
    using none by (simp add: delete_by_first_failing_check)
  have load: "ensureTLSSecret L c2 nameInfo ca =
         (None, c2\<lparr>tlsServingCertDynamicCertProvider :=
                      Some (at (Data secret) TLSCertKey, at (Data secret) TLSPrivateKeyKey)\<rparr>)"
    using none pair
    by (simp add: ensureTLSSecret_by_first_failing_check [OF inf]
        ensureTLSSecretIsCreatedAndLoaded_def loadTLSCertFromSecret_key_pair)
  show ?thesis using none keep load by simp
qed

text \<open>
  The address 10.0.0.5, desired in sixteen bytes as the parser gives it and carried by the
  certificate in four bytes.
\<close>

theorem created_tls_secret_round_trip_witness:
  "ready exampleNameInfo
   \<and> selectedIPs exampleNameInfo = [[0, 0, 0, 0, 0, 0, 0, 0, 0, 0, 0xff, 0xff, 10, 0, 0, 5]]
   \<and> selectedHostname exampleNameInfo = ''''
   \<and> issuedCertificateContract exampleLib exampleCA [] (selectedIPs exampleNameInfo)
   \<and> createNewTLSSecret exampleLib exampleController exampleCA
        (selectedIPs exampleNameInfo) (selectedHostname exampleNameInfo)
      = (Inr exampleTLSSecret,
         exampleController
           \<lparr>k8sClient := \<lparr>apiServices = Map.empty,
                           apiSecrets = [''impersonation-proxy-tls'' \<mapsto> exampleTLSSecret],
                           apiReject = (\<lambda>_. None),
                           calls = [CreateSecret exampleTLSSecret]\<rparr>\<rparr>)
   \<and> secretsInformer (withSecret exampleTLSSecret exampleController)
        (tlsSecretName (withSecret exampleTLSSecret exampleController)) = Inr exampleTLSSecret
   \<and> ensureTLSSecret exampleLib (withSecret exampleTLSSecret exampleController)
        exampleNameInfo exampleCA
      = (None, withSecret exampleTLSSecret exampleController
                 \<lparr>tlsServingCertDynamicCertProvider :=
                    Some (''PEM:der-10.0.0.5'', ''PEM:key-10.0.0.5'')\<rparr>)"
proof -
  let ?c1' = "exampleController
           \<lparr>k8sClient := \<lparr>apiServices = Map.empty,
                           apiSecrets = [''impersonation-proxy-tls'' \<mapsto> exampleTLSSecret],
                           apiReject = (\<lambda>_. None),
                           calls = [CreateSecret exampleTLSSecret]\<rparr>\<rparr>"
  let ?c2 = "withSecret exampleTLSSecret exampleController"
  have rdy: "ready exampleNameInfo"
    and ips: "selectedIPs exampleNameInfo \<noteq> []"
    and ips': "selectedIPs exampleNameInfo = [[0, 0, 0, 0, 0, 0, 0, 0, 0, 0, 0xff, 0xff, 10, 0, 0, 5]]"
    and host: "selectedHostname exampleNameInfo = ''''"
    by (simp_all add: exampleNameInfo_def)
  have contract: "issuedCertificateContract exampleLib exampleCA [] (selectedIPs exampleNameInfo)"
    by (simp add: issuedCertificateContract_def exampleLib_def exampleCA_def exampleNameInfo_def
        exampleCertificate_def IP_Equal_def v4InV6Prefix_def)
  have created: "createNewTLSSecret exampleLib exampleController exampleCA
        (selectedIPs exampleNameInfo) (selectedHostname exampleNameInfo)
      = (Inr exampleTLSSecret, ?c1')"
    by (simp add: createNewTLSSecret_def exampleLib_def exampleCA_def exampleNameInfo_def
        exampleController_def exampleTLSSecret_def clientDo_def apiDo_def Let_def
        TLSCertKey_def TLSPrivateKeyKey_def SecretTypeTLS_def)
  have inf: "secretsInformer ?c2 (tlsSecretName ?c2) = Inr exampleTLSSecret"
    by (simp add: withSecret_def exampleController_def exampleTLSSecret_def)
  have data: "at (Data exampleTLSSecret) TLSCertKey = ''PEM:der-10.0.0.5''"
    "at (Data exampleTLSSecret) TLSPrivateKeyKey = ''PEM:key-10.0.0.5''"
    by (simp_all add: exampleTLSSecret_def at_def TLSCertKey_def TLSPrivateKeyKey_def)
  show ?thesis
    using rdy ips' host contract created inf
      created_tls_secret_round_trip [OF rdy ips host contract created inf]
    by (simp add: data)
qed


subsection \<open>The update of an existing service\<close>

lemma fold_drop_lookup:
  "fmlookup (fold (\<lambda>oldKey annotations.
                     if P oldKey then fmdrop oldKey annotations else annotations) old m) k
   = (if k \<in> set old \<and> P k then None else fmlookup m k)"
  by (induction old arbitrary: m) auto

lemma fold_fmdrop_lookup:
  "fmlookup (fold fmdrop old m) k = (if k \<in> set old then None else fmlookup m k)"
  by (induction old arbitrary: m) auto

lemma sorted_list_of_fset_empty: "(sorted_list_of_fset S = []) = (S = {||})"
proof -
  have "(sorted_list_of_fset S = []) = (set (sorted_list_of_fset S) = {})"
    by (simp only: set_empty)
  also have "\<dots> = (fset S = {})" by simp
  also have "\<dots> = (S = {||})" by (metis fset_inject fset_simps(1))
  finally show ?thesis .
qed

lemma fmdom_empty_iff: "(fmdom m = {||}) = (m = fmempty)"
  by (metis fmdom_empty fmrestrict_fset_dom fmrestrict_fset_null)

lemma sorted_list_of_fset_bot: "sorted_list_of_fset {||} = []"
  by (simp add: sorted_list_of_fset_empty)

lemma updatedService_reconciled_empty:
  assumes e: "Annotations desired = fmempty"
  shows "updatedService L existing desired [] = reconciledService L existing desired keysJSON"
proof -
  have "Annotations (updatedService L existing desired [])
    = reconciledAnnotations (Annotations existing) (Annotations desired)
        (oldDesiredAnnotationKeys L existing) keysJSON"
    by (rule fmap_ext)
       (auto simp: updatedService_def reconciledAnnotations_def Let_def e fold_drop_lookup
          fold_fmdrop_lookup)
  then show ?thesis
    by (simp add: updatedService_def reconciledService_def Let_def)
qed

lemma updatedService_reconciled_nonempty:
  assumes ne: "Annotations desired \<noteq> fmempty"
  shows "updatedService L existing
           (desired\<lparr>Annotations := fmupd annotationKeysKey keysJSON (Annotations desired)\<rparr>)
           (sorted_list_of_fset (fmdom (Annotations desired)))
         = reconciledService L existing desired keysJSON"
proof -
  have keys: "sorted_list_of_fset (fmdom (Annotations desired)) \<noteq> []"
    using ne by (simp add: sorted_list_of_fset_empty fmdom_empty_iff)
  have "Annotations (updatedService L existing
           (desired\<lparr>Annotations := fmupd annotationKeysKey keysJSON (Annotations desired)\<rparr>)
           (sorted_list_of_fset (fmdom (Annotations desired))))
    = reconciledAnnotations (Annotations existing) (Annotations desired)
        (oldDesiredAnnotationKeys L existing) keysJSON"
    by (rule fmap_ext)
       (auto simp: updatedService_def reconciledAnnotations_def Let_def ne keys fold_drop_lookup)
  then show ?thesis
    by (simp add: updatedService_def reconciledService_def Let_def)
qed

lemma createOrUpdateService_existing:
  assumes inf: "servicesInformer c (Name desired) = Inr existing"
    and js: "Annotations desired \<noteq> fmempty \<longrightarrow>
             json_Marshal L (sorted_list_of_fset (fmdom (Annotations desired))) = Inr keysJSON"
  shows "createOrUpdateService L c desired =
     (if existing = reconciledService L existing desired keysJSON then (None, c)
      else clientDo (UpdateService (reconciledService L existing desired keysJSON)) c)"
proof (cases "Annotations desired = fmempty")
  case True
  have keys: "sorted_list_of_fset (fmdom (Annotations desired)) = []"
    using True by (simp add: sorted_list_of_fset_empty)
  show ?thesis
    unfolding createOrUpdateService_def keys
    using inf by (simp add: Let_def updatedService_reconciled_empty [OF True, where keysJSON = keysJSON])
next
  case False
  have keys: "sorted_list_of_fset (fmdom (Annotations desired)) \<noteq> []"
    using False by (simp add: sorted_list_of_fset_empty fmdom_empty_iff)
  have m: "json_Marshal L (sorted_list_of_fset (fmdom (Annotations desired))) = Inr keysJSON"
    using False js by simp
  show ?thesis
    unfolding createOrUpdateService_def
    using inf keys m by (simp add: Let_def updatedService_reconciled_nonempty [OF False])
qed

lemma reconciledAnnotations_lookup:
  "fmlookup (reconciledAnnotations existing desired oldKeys keysJSON) k =
     (if k = annotationKeysKey then (if desired = fmempty then None else Some keysJSON)
      else if k |\<in>| fmdom desired then fmlookup desired k
      else if k \<in> set oldKeys then None
      else fmlookup existing k)"
  by (auto simp: reconciledAnnotations_def Let_def fmlookup_dom_iff split: option.splits)

lemma sorted_keys_b_c:
  "sorted_list_of_fset (fmdom (fmupd ''b'' ''2'' (fmupd ''c'' ''3'' fmempty))) = [''b'', ''c'']"
  by (simp add: sorted_list_of_fset.rep_eq less_eq_char_def)

lemma example_reconciled:
  "reconciledAnnotations
     (fmupd ''a'' ''1'' (fmupd ''b'' ''2'' (fmupd annotationKeysKey oldKeysJSON fmempty)))
     (fmupd ''b'' ''2'' (fmupd ''c'' ''3'' fmempty)) [''a'', ''b''] keysJSON
   = fmupd ''b'' ''2'' (fmupd ''c'' ''3'' (fmupd annotationKeysKey keysJSON fmempty))"
proof -
  have ne: "fmupd ''b'' ''2'' (fmupd ''c'' ''3'' fmempty) \<noteq> (fmempty :: (string, string) fmap)"
    by (simp flip: fmdom_empty_iff)
  show ?thesis
    by (rule fmap_ext) (auto simp: reconciledAnnotations_lookup ne annotationKeysKey_def)
qed

text \<open>
  Claim C5. The service exists: the update of it is the reconciled copy, and it is written
  unless it equals the stored service. Its annotations are reconciled, not replaced. Key by
  key: the bookkeeping key holds the JSON list of the desired keys, and is absent when no
  annotation is desired; any other desired key holds the desired value; a key that is not
  desired and that the previous bookkeeping list records is absent; every other key, that a
  third party may have added, keeps the existing value. In particular, existing annotations
  a:1 and b:2 with the bookkeeping list of a and b, and desired annotations b:2 and c:3,
  reconcile to b:2 and c:3 with the bookkeeping annotation made from the sorted list of b
  and c.
\<close>

theorem annotations_merge_reconciled:
  assumes inf: "servicesInformer c (Name desired) = Inr existing"
    and js: "Annotations desired \<noteq> fmempty \<longrightarrow>
             json_Marshal L (sorted_list_of_fset (fmdom (Annotations desired))) = Inr keysJSON"
  shows "createOrUpdateService L c desired =
           (if existing = reconciledService L existing desired keysJSON then (None, c)
            else clientDo (UpdateService (reconciledService L existing desired keysJSON)) c)
     \<and> (\<forall>k. fmlookup (Annotations (reconciledService L existing desired keysJSON)) k =
            (if k = annotationKeysKey
             then (if Annotations desired = fmempty then None else Some keysJSON)
             else if k |\<in>| fmdom (Annotations desired) then fmlookup (Annotations desired) k
             else if k \<in> set (oldDesiredAnnotationKeys L existing) then None
             else fmlookup (Annotations existing) k))
     \<and> reconciledAnnotations
          (fmupd ''a'' ''1'' (fmupd ''b'' ''2'' (fmupd annotationKeysKey oldKeysJSON fmempty)))
          (fmupd ''b'' ''2'' (fmupd ''c'' ''3'' fmempty)) [''a'', ''b''] newKeysJSON
        = fmupd ''b'' ''2'' (fmupd ''c'' ''3'' (fmupd annotationKeysKey newKeysJSON fmempty))
     \<and> sorted_list_of_fset (fmdom (fmupd ''b'' ''2'' (fmupd ''c'' ''3'' fmempty))) = [''b'', ''c'']"
proof -
  have "\<forall>k. fmlookup (Annotations (reconciledService L existing desired keysJSON)) k =
            (if k = annotationKeysKey
             then (if Annotations desired = fmempty then None else Some keysJSON)
             else if k |\<in>| fmdom (Annotations desired) then fmlookup (Annotations desired) k
             else if k \<in> set (oldDesiredAnnotationKeys L existing) then None
             else fmlookup (Annotations existing) k)"
    by (simp add: reconciledService_def reconciledAnnotations_lookup)
  then show ?thesis
    using createOrUpdateService_existing [OF inf js] example_reconciled sorted_keys_b_c
    by simp
qed

text \<open>The example of the claim, run through \<open>createOrUpdateService\<close>.\<close>

theorem annotations_merge_reconciled_witness:
  "servicesInformer (withService exampleAnnotatedLoadBalancer exampleController)
      (Name exampleDesiredLoadBalancer) = Inr exampleAnnotatedLoadBalancer
   \<and> json_Marshal exampleLib (sorted_list_of_fset (fmdom (Annotations exampleDesiredLoadBalancer)))
       = Inr (''['' @ exampleMarshal [''b'', ''c''] @ '']'')
   \<and> createOrUpdateService exampleLib (withService exampleAnnotatedLoadBalancer exampleController)
        exampleDesiredLoadBalancer
      = clientDo
          (UpdateService
             (exampleAnnotatedLoadBalancer
                \<lparr>Annotations :=
                   fmupd ''b'' ''2'' (fmupd ''c'' ''3''
                     (fmupd ''credentialissuer.pinniped.dev/annotation-keys''
                        (''['' @ exampleMarshal [''b'', ''c''] @ '']'') fmempty))\<rparr>))
          (withService exampleAnnotatedLoadBalancer exampleController)"
proof -
  let ?c = "withService exampleAnnotatedLoadBalancer exampleController"
  let ?js = "''['' @ exampleMarshal [''b'', ''c''] @ '']''"
  have inf: "servicesInformer ?c (Name exampleDesiredLoadBalancer) = Inr exampleAnnotatedLoadBalancer"
    by (simp add: withService_def exampleController_def exampleAnnotatedLoadBalancer_def
        exampleLoadBalancer_def exampleDesiredLoadBalancer_def)
  have keys: "sorted_list_of_fset (fmdom (Annotations exampleDesiredLoadBalancer)) = [''b'', ''c'']"
    using sorted_keys_b_c by (simp add: exampleDesiredLoadBalancer_def)
  have m: "json_Marshal exampleLib (sorted_list_of_fset (fmdom (Annotations exampleDesiredLoadBalancer)))
       = Inr ?js"
    unfolding keys by (simp add: exampleLib_def)
  have js: "Annotations exampleDesiredLoadBalancer \<noteq> fmempty \<longrightarrow>
      json_Marshal exampleLib (sorted_list_of_fset (fmdom (Annotations exampleDesiredLoadBalancer)))
       = Inr ?js"
    using m by simp
  have old: "oldDesiredAnnotationKeys exampleLib exampleAnnotatedLoadBalancer = [''a'', ''b'']"
    by (simp add: oldDesiredAnnotationKeys_def exampleAnnotatedLoadBalancer_def
        exampleLoadBalancer_def exampleLib_def annotationKeysKey_def)
  have r: "reconciledService exampleLib exampleAnnotatedLoadBalancer exampleDesiredLoadBalancer ?js
      = exampleAnnotatedLoadBalancer
                \<lparr>Annotations :=
                   fmupd ''b'' ''2'' (fmupd ''c'' ''3''
                     (fmupd ''credentialissuer.pinniped.dev/annotation-keys'' ?js fmempty))\<rparr>"
    unfolding reconciledService_def old
    using example_reconciled [of "''['' @ exampleMarshal [''a'', ''b''] @ '']''" ?js]
    by (simp add: exampleAnnotatedLoadBalancer_def exampleLoadBalancer_def
        exampleDesiredLoadBalancer_def annotationKeysKey_def)
  have ne: "exampleAnnotatedLoadBalancer \<noteq>
      reconciledService exampleLib exampleAnnotatedLoadBalancer exampleDesiredLoadBalancer ?js"
  proof
    assume "exampleAnnotatedLoadBalancer =
      reconciledService exampleLib exampleAnnotatedLoadBalancer exampleDesiredLoadBalancer ?js"
    then have "fmlookup (Annotations exampleAnnotatedLoadBalancer) ''a''
       = fmlookup (Annotations (reconciledService exampleLib exampleAnnotatedLoadBalancer
            exampleDesiredLoadBalancer ?js)) ''a''"
      by simp
    then show False
      unfolding r by (simp add: exampleAnnotatedLoadBalancer_def)
  qed
  have main: "createOrUpdateService exampleLib ?c exampleDesiredLoadBalancer =
      (if exampleAnnotatedLoadBalancer
            = reconciledService exampleLib exampleAnnotatedLoadBalancer exampleDesiredLoadBalancer ?js
       then (None, ?c)
       else clientDo (UpdateService (reconciledService exampleLib exampleAnnotatedLoadBalancer
                        exampleDesiredLoadBalancer ?js)) ?c)"
    using annotations_merge_reconciled [OF inf js] by (rule conjunct1)
  have step: "createOrUpdateService exampleLib ?c exampleDesiredLoadBalancer =
      clientDo (UpdateService (reconciledService exampleLib exampleAnnotatedLoadBalancer
                        exampleDesiredLoadBalancer ?js)) ?c"
    by (simp only: main ne if_False)
  show ?thesis
    by (intro conjI) (rule inf, rule m, rule step [unfolded r])
qed


subsection \<open>What an update leaves as it is\<close>

lemma apiDo_calls: "calls (snd (apiDo cl k)) = calls k @ [cl]"
proof (cases "apiReject k cl")
  case (Some e)
  then show ?thesis by (simp add: apiDo_def Let_def)
next
  case None
  then show ?thesis by (cases cl) (simp_all add: apiDo_def Let_def)
qed

lemma clientDo_calls: "calls (k8sClient (snd (clientDo cl c))) = calls (k8sClient c) @ [cl]"
  using apiDo_calls [of cl "k8sClient c"]
  by (cases "apiDo cl (k8sClient c)") (simp add: clientDo_def)

lemma reconciledService_unchanged:
  assumes "Labels existing = Labels desired"
    and "Spec_Type existing = Spec_Type desired"
    and "Spec_LoadBalancerIP existing = Spec_LoadBalancerIP desired"
    and "Spec_Selector existing = Spec_Selector desired"
    and "Annotations existing = Annotations (reconciledService L existing desired keysJSON)"
  shows "reconciledService L existing desired keysJSON = existing"
proof -
  have a: "reconciledAnnotations (Annotations existing) (Annotations desired)
             (oldDesiredAnnotationKeys L existing) keysJSON = Annotations existing"
    using assms(5) by (simp add: reconciledService_def)
  show ?thesis
    unfolding reconciledService_def a
    using assms(1-4) [symmetric] by simp
qed

text \<open>
  Claim C10. The service exists. The only mutating call that \<open>createOrUpdateService\<close> can
  make is one update, and the object it writes is the stored object with its labels, its
  annotations, and the type, the load balancer IP and the selector of its spec replaced:
  its name, namespace, ports, cluster IPs and load balancer status are the stored ones.
  When those five written fields already have their desired values, nothing is called,
  whatever the stored ports are: a drift of the ports is not corrected.
\<close>

theorem update_writes_five_fields:
  assumes inf: "servicesInformer c (Name desired) = Inr existing"
    and js: "Annotations desired \<noteq> fmempty \<longrightarrow>
             json_Marshal L (sorted_list_of_fset (fmdom (Annotations desired))) = Inr keysJSON"
  shows "calls (k8sClient (snd (createOrUpdateService L c desired))) =
           calls (k8sClient c)
           @ (if existing = reconciledService L existing desired keysJSON then []
              else [UpdateService (reconciledService L existing desired keysJSON)])
     \<and> Name (reconciledService L existing desired keysJSON) = Name existing
     \<and> Namespace (reconciledService L existing desired keysJSON) = Namespace existing
     \<and> Spec_Ports (reconciledService L existing desired keysJSON) = Spec_Ports existing
     \<and> Spec_ClusterIP (reconciledService L existing desired keysJSON) = Spec_ClusterIP existing
     \<and> Spec_ClusterIPs (reconciledService L existing desired keysJSON) = Spec_ClusterIPs existing
     \<and> Status_LoadBalancer_Ingress (reconciledService L existing desired keysJSON)
         = Status_LoadBalancer_Ingress existing
     \<and> (Labels existing = Labels desired
         \<and> Spec_Type existing = Spec_Type desired
         \<and> Spec_LoadBalancerIP existing = Spec_LoadBalancerIP desired
         \<and> Spec_Selector existing = Spec_Selector desired
         \<and> Annotations existing = Annotations (reconciledService L existing desired keysJSON)
         \<longrightarrow> createOrUpdateService L c desired = (None, c))"
proof (intro conjI impI)
  show "calls (k8sClient (snd (createOrUpdateService L c desired))) =
           calls (k8sClient c)
           @ (if existing = reconciledService L existing desired keysJSON then []
              else [UpdateService (reconciledService L existing desired keysJSON)])"
    by (simp add: createOrUpdateService_existing [OF inf js] clientDo_calls)
next
  assume "Labels existing = Labels desired
         \<and> Spec_Type existing = Spec_Type desired
         \<and> Spec_LoadBalancerIP existing = Spec_LoadBalancerIP desired
         \<and> Spec_Selector existing = Spec_Selector desired
         \<and> Annotations existing = Annotations (reconciledService L existing desired keysJSON)"
  then have "reconciledService L existing desired keysJSON = existing"
    by (intro reconciledService_unchanged) simp_all
  then show "createOrUpdateService L c desired = (None, c)"
    by (simp add: createOrUpdateService_existing [OF inf js])
qed (simp_all add: reconciledService_def)

text \<open>
  The stored load balancer serves port 80 where the desired one serves 443, and agrees with
  it on the five written fields: no update is made.
\<close>

theorem update_writes_five_fields_witness:
  "servicesInformer (withService exampleDriftedLoadBalancer exampleController)
      (Name (exampleDesiredLoadBalancer\<lparr>Annotations := fmempty\<rparr>)) = Inr exampleDriftedLoadBalancer
   \<and> Spec_Ports exampleDriftedLoadBalancer
       \<noteq> Spec_Ports (exampleDesiredLoadBalancer\<lparr>Annotations := fmempty\<rparr>)
   \<and> createOrUpdateService exampleLib (withService exampleDriftedLoadBalancer exampleController)
        (exampleDesiredLoadBalancer\<lparr>Annotations := fmempty\<rparr>)
      = (None, withService exampleDriftedLoadBalancer exampleController)"
proof -
  let ?c = "withService exampleDriftedLoadBalancer exampleController"
  let ?d = "exampleDesiredLoadBalancer\<lparr>Annotations := fmempty\<rparr>"
  have inf: "servicesInformer ?c (Name ?d) = Inr exampleDriftedLoadBalancer"
    by (simp add: withService_def exampleController_def exampleDriftedLoadBalancer_def
        exampleLoadBalancer_def exampleDesiredLoadBalancer_def)
  have js: "Annotations ?d \<noteq> fmempty \<longrightarrow>
      json_Marshal exampleLib (sorted_list_of_fset (fmdom (Annotations ?d))) = Inr ''''"
    by simp
  have ports: "Spec_Ports exampleDriftedLoadBalancer \<noteq> Spec_Ports ?d"
    by (simp add: exampleDriftedLoadBalancer_def exampleDesiredLoadBalancer_def)
  have ann: "Annotations exampleDriftedLoadBalancer
      = Annotations (reconciledService exampleLib exampleDriftedLoadBalancer ?d '''')"
    by (rule fmap_ext)
       (simp add: reconciledService_def reconciledAnnotations_lookup oldDesiredAnnotationKeys_def
          exampleDriftedLoadBalancer_def exampleLoadBalancer_def)
  have same: "Labels exampleDriftedLoadBalancer = Labels ?d
         \<and> Spec_Type exampleDriftedLoadBalancer = Spec_Type ?d
         \<and> Spec_LoadBalancerIP exampleDriftedLoadBalancer = Spec_LoadBalancerIP ?d
         \<and> Spec_Selector exampleDriftedLoadBalancer = Spec_Selector ?d
         \<and> Annotations exampleDriftedLoadBalancer
            = Annotations (reconciledService exampleLib exampleDriftedLoadBalancer ?d '''')"
    using ann
    by (simp add: exampleDriftedLoadBalancer_def exampleLoadBalancer_def
        exampleDesiredLoadBalancer_def)
  have kept: "createOrUpdateService exampleLib ?c ?d = (None, ?c)"
    using update_writes_five_fields [OF inf js] same by blast
  show ?thesis
    by (intro conjI) (rule inf, rule ports, rule kept)
qed


end
